theory Spec2Isabelle
  imports Complex_Main
begin

section \<open>Strings, raw query values and errors\<close>

text \<open>
  A JavaScript string is a sequence of UTF-16 code units; \<open>length\<close>, \<open>trim\<close> and a
  regular expression without the \<open>u\<close> flag all work on code units. A code unit is a
  natural number here, and \<open>js\<close> turns an ASCII literal into its code units.
\<close>

type_synonym jsstring = "nat list"

definition js :: "string \<Rightarrow> jsstring" where
  "js s = map of_char s"

text \<open>
  The white space of ECMAScript (WhiteSpace and LineTerminator): what \<open>trim\<close> strips,
  what \<open>\s\<close> matches in a regular expression and what \<open>Number\<close> and \<open>parseInt\<close> skip.
\<close>

definition isWhiteSpace :: "nat \<Rightarrow> bool" where
  "isWhiteSpace c \<longleftrightarrow>
     c \<in> {9, 10, 11, 12, 13, 32, 160, 5760, 8232, 8233, 8239, 8287, 12288, 65279}
     \<or> (8192 \<le> c \<and> c \<le> 8202)"

definition isDigit :: "nat \<Rightarrow> bool" where
  "isDigit c \<longleftrightarrow> 48 \<le> c \<and> c \<le> 57"

definition isAsciiLetter :: "nat \<Rightarrow> bool" where
  "isAsciiLetter c \<longleftrightarrow> (65 \<le> c \<and> c \<le> 90) \<or> (97 \<le> c \<and> c \<le> 122)"

text \<open>\<open>String.prototype.trim\<close>: white space removed at both ends.\<close>

definition trim :: "jsstring \<Rightarrow> jsstring" where
  "trim s = rev (dropWhile isWhiteSpace (rev (dropWhile isWhiteSpace s)))"

text \<open>
  A query field is \<open>string | string[] | undefined\<close> (interfaces \<open>OrderQueryParams\<close> and
  \<open>CustomerQueryParams\<close>).
\<close>

datatype raw = Absent | Single jsstring | Multiple "jsstring list"

text \<open>
  The two error classes the code raises, with the message each throw site gives (the
  messages are Russian sentences in the source; a message that quotes the raw value
  carries it):
  \<^item> \<open>ParamMustNotBeArray\<close>: thrown by \<open>getSingleString\<close> (the parameter must not be an array);
  \<^item> \<open>MustBePositiveInt v\<close>, \<open>MustBeNonNegative v\<close>, \<open>MustBeValidDate v\<close>: thrown by
    \<open>parsePositiveInt\<close>, \<open>parseNonNegativeNumber\<close>, \<open>parseDate\<close>, quoting the value;
  \<^item> \<open>SortOrderAscDesc\<close>: thrown by \<open>parseSortOrder\<close>;
  \<^item> \<open>SearchHasInvalidChars\<close>: thrown by \<open>sanitizeSearch\<close>;
  \<^item> \<open>InvalidStatus\<close>, \<open>InvalidSearchQuery\<close>: thrown by \<open>getOrders\<close>;
  \<^item> \<open>InvalidSearchParameter\<close>: the \<open>NotFoundError\<close> of \<open>getCustomers\<close>.

  The conditions the specification names are these errors: InvalidParameterShape is
  \<open>BadRequestError ParamMustNotBeArray\<close>; InvalidParameter is a \<open>BadRequestError\<close> with
  \<open>MustBePositiveInt\<close>, \<open>MustBeNonNegative\<close>, \<open>MustBeValidDate\<close> or \<open>SortOrderAscDesc\<close>;
  InvalidSearchTerm is \<open>BadRequestError SearchHasInvalidChars\<close>.
\<close>

datatype message =
    ParamMustNotBeArray
  | MustBePositiveInt jsstring
  | MustBeNonNegative jsstring
  | MustBeValidDate jsstring
  | SortOrderAscDesc
  | SearchHasInvalidChars
  | InvalidStatus
  | InvalidSearchQuery
  | InvalidSearchParameter

datatype error = BadRequestError message | NotFoundError message

section \<open>Single-value extraction and the search sanitizer (utils/parseQueryParams)\<close>

text \<open>
  \<^verbatim>\<open>
  const getSingleString = (value?: string | string[]): string | undefined => {
      if (Array.isArray(value)) {
          if (value.length === 0) return undefined;
          if (value.length > 1) throw new BadRequestError(...);
          return value[0];
      }
      return value;
  };
  \<close>
\<close>

fun getSingleString :: "raw \<Rightarrow> error + jsstring option" where
  "getSingleString (Multiple []) = Inr None"
| "getSingleString (Multiple [x]) = Inr (Some x)"
| "getSingleString (Multiple (x # y # zs)) = Inl (BadRequestError ParamMustNotBeArray)"
| "getSingleString (Single s) = Inr (Some s)"
| "getSingleString Absent = Inr None"

text \<open>The character class \<open>[a-zA-Z0-9\s\-_.+%]\<close> of the regular expression \<open>allowed\<close>.\<close>

definition allowedChar :: "nat \<Rightarrow> bool" where
  "allowedChar c \<longleftrightarrow>
     isAsciiLetter c \<or> isDigit c \<or> isWhiteSpace c \<or> c \<in> set (js ''-_.+%'')"

text \<open>
  \<open>allowed.test(trimmed)\<close> for \<open>/^[a-zA-Z0-9\s\-_.+%]+$/\<close> (no flags): the whole string,
  at least one character, every character in the class.
\<close>

definition allowed_test :: "jsstring \<Rightarrow> bool" where
  "allowed_test s \<longleftrightarrow> s \<noteq> [] \<and> list_all allowedChar s"

text \<open>
  The class \<open>[.*+?^${}()|[\]\\]\<close> and the replacement \<open>'\\$&'\<close> with the \<open>g\<close> flag: every
  character of the class is replaced by a backslash (code unit 92) followed by itself.
\<close>

definition isRegexMeta :: "nat \<Rightarrow> bool" where
  "isRegexMeta c \<longleftrightarrow> c \<in> set (js ''.*+?^${}()|[]'') \<or> c = 92"

definition escapeRegex :: "jsstring \<Rightarrow> jsstring" where
  "escapeRegex s = concat (map (\<lambda>c. if isRegexMeta c then [92, c] else [c]) s)"

text \<open>
  \<^verbatim>\<open>
  const sanitizeSearch = (value?: string): string | undefined => {
    if (!value) return undefined;
    const trimmed = value.trim();
    if (trimmed.length === 0) return undefined;
    const allowed = /^[a-zA-Z0-9\s\-_.+%]+$/;
    if (!allowed.test(trimmed)) { throw new BadRequestError(...); }
    return trimmed.replace(/[.*+?^${}()|[\]\\]/g, '\\$&');
  };
  \<close>
\<close>

definition sanitizeSearch :: "jsstring option \<Rightarrow> error + jsstring option" where
  "sanitizeSearch value =
     (case value of
        None \<Rightarrow> Inr None
      | Some v \<Rightarrow>
          if v = [] then Inr None
          else let trimmed = trim v in
            if length trimmed = 0 then Inr None
            else if \<not> allowed_test trimmed then Inl (BadRequestError SearchHasInvalidChars)
            else Inr (Some (escapeRegex trimmed)))"

section \<open>Numbers and dates of the host language\<close>

text \<open>
  A number of JavaScript is a binary64 value: \<open>NaN\<close>, an infinity, or a finite value,
  held as the rational it is. \<open>Fin 0\<close> stands for both zeros, which the comparisons of
  the code do not tell apart.
\<close>

datatype jsnum = NaN | PosInfinity | NegInfinity | Fin rat

text \<open>
  Rounding to binary64, to nearest with ties to even. \<open>bitlen n\<close> is the number of binary
  digits of \<open>n\<close>; \<open>roundHalfEven num den\<close> is the integer nearest to \<open>num / den\<close>;
  \<open>floorLog2 a b\<close> is the exponent \<open>e\<close> with \<open>2^e \<le> a / b < 2^(e + 1)\<close>. \<open>toDouble a b\<close> is
  the binary64 value of the positive quotient \<open>a / b\<close>: 53 significant bits, the unit in
  the last place being \<open>2^(e - 52)\<close> and never below \<open>2^(-1074)\<close> (subnormal numbers, and
  zero by underflow), and \<open>Infinity\<close> when the rounded value reaches \<open>2^1024\<close>.
\<close>

fun bitlen :: "nat \<Rightarrow> nat" where
  "bitlen n = (if n = 0 then 0 else Suc (bitlen (n div 2)))"

declare bitlen.simps [simp del]

definition roundHalfEven :: "nat \<Rightarrow> nat \<Rightarrow> nat" where
  "roundHalfEven num den =
     (let q = num div den; r = num mod den
      in if 2 * r < den then q
         else if den < 2 * r then q + 1
         else if even q then q else q + 1)"

definition floorLog2 :: "nat \<Rightarrow> nat \<Rightarrow> int" where
  "floorLog2 a b =
     (let e0 = int (bitlen a) - int (bitlen b)
      in if (if 0 \<le> e0 then b * 2 ^ nat e0 \<le> a else b \<le> a * 2 ^ nat (- e0))
         then e0 else e0 - 1)"

definition toDouble :: "nat \<Rightarrow> nat \<Rightarrow> jsnum" where
  "toDouble a b =
     (if a = 0 then Fin 0
      else let k = max (floorLog2 a b) (- 1022) - 52
           in if 0 \<le> k
              then (let m = roundHalfEven a (b * 2 ^ nat k)
                    in if 2 ^ 1024 \<le> m * 2 ^ nat k then PosInfinity
                       else Fin (of_nat (m * 2 ^ nat k)))
              else Fin (of_nat (roundHalfEven (a * 2 ^ nat (- k)) b) / 2 ^ nat (- k)))"

fun negate :: "jsnum \<Rightarrow> jsnum" where
  "negate NaN = NaN"
| "negate PosInfinity = NegInfinity"
| "negate NegInfinity = PosInfinity"
| "negate (Fin q) = Fin (- q)"

text \<open>The number that an integer converts to.\<close>

definition doubleOfInt :: "int \<Rightarrow> jsnum" where
  "doubleOfInt i = (if i < 0 then negate (toDouble (nat (- i)) 1) else toDouble (nat i) 1)"

text \<open>
  \<open>Number(string)\<close> and \<open>parseInt(string, 10)\<close> are built in. Their models follow the
  grammar of ECMAScript (StringNumericLiteral, and the prefix that \<open>parseInt\<close> reads) and
  round the value the literal denotes to binary64, correctly for a literal of any
  length, as the engine of Node.js does.
\<close>

definition digitsVal :: "jsstring \<Rightarrow> nat" where
  "digitsVal ds = foldl (\<lambda>a c. 10 * a + (c - 48)) 0 ds"

definition hexDigitVal :: "nat \<Rightarrow> nat option" where
  "hexDigitVal c =
     (if 48 \<le> c \<and> c \<le> 57 then Some (c - 48)
      else if 97 \<le> c \<and> c \<le> 102 then Some (c - 87)
      else if 65 \<le> c \<and> c \<le> 70 then Some (c - 55)
      else None)"

text \<open>The digits of a literal in base \<open>b\<close>; \<open>None\<close> when a character is no digit of that base.\<close>

fun radixVal :: "nat \<Rightarrow> nat \<Rightarrow> jsstring \<Rightarrow> nat option" where
  "radixVal b acc [] = Some acc"
| "radixVal b acc (c # cs) =
     (case hexDigitVal c of
        None \<Rightarrow> None
      | Some d \<Rightarrow> if d < b then radixVal b (b * acc + d) cs else None)"

text \<open>NonDecimalIntegerLiteral: \<open>0x\<close>, \<open>0o\<close> or \<open>0b\<close> (either case) and at least one digit.\<close>

definition nonDecimalLiteral :: "jsstring \<Rightarrow> nat option" where
  "nonDecimalLiteral t =
     (if length t < 3 \<or> take 1 t \<noteq> js ''0'' then None
      else if take 1 (drop 1 t) = js ''x'' \<or> take 1 (drop 1 t) = js ''X'' then radixVal 16 0 (drop 2 t)
      else if take 1 (drop 1 t) = js ''o'' \<or> take 1 (drop 1 t) = js ''O'' then radixVal 8 0 (drop 2 t)
      else if take 1 (drop 1 t) = js ''b'' \<or> take 1 (drop 1 t) = js ''B'' then radixVal 2 0 (drop 2 t)
      else None)"

text \<open>ExponentPart, or nothing: \<open>e\<close> or \<open>E\<close>, an optional sign, at least one digit.\<close>

definition exponentPart :: "jsstring \<Rightarrow> int option" where
  "exponentPart r =
     (if r = [] then Some 0
      else if take 1 r \<noteq> js ''e'' \<and> take 1 r \<noteq> js ''E'' then None
      else let s = drop 1 r;
               neg = (take 1 s = js ''-'');
               ds = (if take 1 s = js ''-'' \<or> take 1 s = js ''+'' then drop 1 s else s)
           in if ds = [] \<or> \<not> list_all isDigit ds then None
              else Some (if neg then - int (digitsVal ds) else int (digitsVal ds)))"

text \<open>The binary64 value of \<open>m\<close> times ten to the power \<open>k\<close>.\<close>

definition decimalValue :: "nat \<Rightarrow> int \<Rightarrow> jsnum" where
  "decimalValue m k =
     (if 0 \<le> k then toDouble (m * 10 ^ nat k) 1 else toDouble m (10 ^ nat (- k)))"

text \<open>
  StrUnsignedDecimalLiteral: \<open>Infinity\<close>, or digits with an optional fraction and an
  optional exponent, with a digit before or after the dot.
\<close>

definition unsignedDecimalLiteral :: "jsstring \<Rightarrow> jsnum" where
  "unsignedDecimalLiteral t =
     (if t = js ''Infinity'' then PosInfinity
      else let ip = takeWhile isDigit t;
               r1 = dropWhile isDigit t;
               hasDot = (take 1 r1 = js ''.'');
               fp = (if hasDot then takeWhile isDigit (drop 1 r1) else []);
               r2 = (if hasDot then dropWhile isDigit (drop 1 r1) else r1)
           in if ip = [] \<and> fp = [] then NaN
              else (case exponentPart r2 of
                      None \<Rightarrow> NaN
                    | Some e \<Rightarrow> decimalValue (digitsVal (ip @ fp)) (e - int (length fp))))"

text \<open>
  \<open>Number(s)\<close> for a string: white space stripped at both ends; the empty string is 0;
  a literal that is not of the grammar is \<open>NaN\<close>. A sign is allowed before a decimal
  literal only.
\<close>

definition Number :: "jsstring \<Rightarrow> jsnum" where
  "Number s =
     (let t = trim s in
      if t = [] then Fin 0
      else (case nonDecimalLiteral t of
              Some n \<Rightarrow> toDouble n 1
            | None \<Rightarrow>
                if take 1 t = js ''-'' then negate (unsignedDecimalLiteral (drop 1 t))
                else if take 1 t = js ''+'' then unsignedDecimalLiteral (drop 1 t)
                else unsignedDecimalLiteral t))"

fun isInteger :: "jsnum \<Rightarrow> bool" where
  "isInteger (Fin q) = (of_int \<lfloor>q\<rfloor> = q)"
| "isInteger n = False"

fun isFinite :: "jsnum \<Rightarrow> bool" where
  "isFinite (Fin q) = True"
| "isFinite n = False"

text \<open>The comparisons \<open>n <= 0\<close> and \<open>n < 0\<close>, false on \<open>NaN\<close>.\<close>

fun leZero :: "jsnum \<Rightarrow> bool" where
  "leZero (Fin q) = (q \<le> 0)"
| "leZero NegInfinity = True"
| "leZero n = False"

fun ltZero :: "jsnum \<Rightarrow> bool" where
  "ltZero (Fin q) = (q < 0)"
| "ltZero NegInfinity = True"
| "ltZero n = False"

text \<open>
  \<open>parseInt(s, 10)\<close>: leading white space skipped, an optional sign, then the longest
  run of decimal digits, whatever follows it; \<open>NaN\<close> when no digit is there. The integer
  the digits spell is rounded to binary64.
\<close>

definition parseInt :: "jsstring \<Rightarrow> jsnum" where
  "parseInt s =
     (let t = dropWhile isWhiteSpace s;
          neg = (take 1 t = js ''-'');
          u = (if take 1 t = js ''-'' \<or> take 1 t = js ''+'' then drop 1 t else t);
          z = takeWhile isDigit u
      in if z = [] then NaN
         else if neg then negate (toDouble (digitsVal z) 1) else toDouble (digitsVal z) 1)"

text \<open>
  A \<open>Date\<close> is its time value, milliseconds since the epoch, or the invalid date. The
  parser of \<open>new Date(string)\<close> is the host's: the normalizers take it as the parameter
  \<open>dateCtor\<close>. Local time is UTC plus a fixed offset \<open>tz\<close> of milliseconds, a parameter
  of the filter builders.
\<close>

datatype jsdate = InvalidDate | TimeValue int

definition msPerDay :: int where
  "msPerDay = 86400000"

text \<open>
  \<open>d.setHours(23, 59, 59, 999)\<close>: the day of the local time is kept, the time within the
  day replaced, and the result clipped to the range of time values (TimeClip).
\<close>

definition setHours_23_59_59_999 :: "int \<Rightarrow> jsdate \<Rightarrow> jsdate" where
  "setHours_23_59_59_999 tz d =
     (case d of
        InvalidDate \<Rightarrow> InvalidDate
      | TimeValue t \<Rightarrow>
          let day = (t + tz) div msPerDay;
              u = day * msPerDay + (23 * 3600000 + 59 * 60000 + 59 * 1000 + 999) - tz
          in if \<bar>u\<bar> \<le> 8640000000000000 then TimeValue u else InvalidDate)"

text \<open>The time within the local day of a date, in milliseconds.\<close>

fun localTimeOfDay :: "int \<Rightarrow> jsdate \<Rightarrow> int option" where
  "localTimeOfDay tz InvalidDate = None"
| "localTimeOfDay tz (TimeValue t) = Some ((t + tz) mod msPerDay)"

section \<open>Scalar parsers and parameter-set normalizers (utils/parseQueryParams)\<close>

text \<open>
  \<^verbatim>\<open>
  const parsePositiveInt = (value?: string, defaultValue?: number): number | undefined => {
      if (!value) return defaultValue;
      const n = Number(value);
      if (!Number.isInteger(n) || n <= 0) throw new BadRequestError(`...: ${value}`);
      return n;
  };
  \<close>
  \<open>!value\<close> holds of \<open>undefined\<close> and of the empty string. A value that passes the test is
  an integer, returned as one.
\<close>

definition parsePositiveInt :: "jsstring option \<Rightarrow> int option \<Rightarrow> error + int option" where
  "parsePositiveInt value defaultValue =
     (case value of
        None \<Rightarrow> Inr defaultValue
      | Some v \<Rightarrow>
          if v = [] then Inr defaultValue
          else (case Number v of
                  Fin q \<Rightarrow>
                    if \<not> isInteger (Fin q) \<or> leZero (Fin q)
                    then Inl (BadRequestError (MustBePositiveInt v))
                    else Inr (Some \<lfloor>q\<rfloor>)
                | n \<Rightarrow> Inl (BadRequestError (MustBePositiveInt v))))"

text \<open>
  \<^verbatim>\<open>
  const parseNonNegativeNumber = (value?: string): number | undefined => {
      if (!value) return undefined;
      const n = Number(value);
      if (!Number.isFinite(n) || n < 0) throw new BadRequestError(`...: ${value}`);
      return n;
  };
  \<close>
\<close>

definition parseNonNegativeNumber :: "jsstring option \<Rightarrow> error + rat option" where
  "parseNonNegativeNumber value =
     (case value of
        None \<Rightarrow> Inr None
      | Some v \<Rightarrow>
          if v = [] then Inr None
          else (case Number v of
                  Fin q \<Rightarrow>
                    if ltZero (Fin q) then Inl (BadRequestError (MustBeNonNegative v))
                    else Inr (Some q)
                | n \<Rightarrow> Inl (BadRequestError (MustBeNonNegative v))))"

text \<open>
  \<^verbatim>\<open>
  const parseDate = (value?: string): Date | undefined => {
      if (!value) return undefined;
      const d = new Date(value);
      if (Number.isNaN(d.getTime())) throw new BadRequestError(`...: ${value}`);
      return d;
  };
  \<close>
\<close>

definition parseDate :: "(jsstring \<Rightarrow> jsdate) \<Rightarrow> jsstring option \<Rightarrow> error + jsdate option" where
  "parseDate dateCtor value =
     (case value of
        None \<Rightarrow> Inr None
      | Some v \<Rightarrow>
          if v = [] then Inr None
          else (case dateCtor v of
                  InvalidDate \<Rightarrow> Inl (BadRequestError (MustBeValidDate v))
                | TimeValue t \<Rightarrow> Inr (Some (TimeValue t))))"

datatype sortOrder = Asc | Desc

text \<open>
  \<^verbatim>\<open>
  const parseSortOrder = (value?: string, defaultValue: "asc" | "desc" = "desc") => {
      if (!value) return defaultValue;
      if (value !== "asc" && value !== "desc") throw new BadRequestError(...);
      return value;
  };
  \<close>
\<close>

definition parseSortOrder :: "jsstring option \<Rightarrow> sortOrder \<Rightarrow> error + sortOrder" where
  "parseSortOrder value defaultValue =
     (case value of
        None \<Rightarrow> Inr defaultValue
      | Some v \<Rightarrow>
          if v = [] then Inr defaultValue
          else if v \<noteq> js ''asc'' \<and> v \<noteq> js ''desc'' then Inl (BadRequestError SortOrderAscDesc)
          else if v = js ''asc'' then Inr Asc else Inr Desc)"

text \<open>
  \<^verbatim>\<open>
  export const normalizeLimit = (limitQuery: unknown, defaultLim: number): number => {
      let limitStr = "";
      if (typeof limitQuery === "string") {
          limitStr = limitQuery;
      } else if (Array.isArray(limitQuery)) {
          limitStr = limitQuery[0] ?? "";
      }
      const limitNum = parseInt(limitStr, 10);
      if (Number.isNaN(limitNum) || limitNum <= 0) return defaultLim;
      return Math.min(limitNum, defaultLim);
  };
  \<close>
  The argument is an absent value, a string or an array of strings; the default is an
  integer (10 and 5 at the call sites). \<open>NaN\<close> and what is at most 0, \<open>-Infinity\<close>
  included, give the default; \<open>Math.min(Infinity, defaultLim)\<close> is the default; a finite
  \<open>limitNum\<close> is an integer, since \<open>parseInt\<close> returned it.
\<close>

definition limitStrOf :: "raw \<Rightarrow> jsstring" where
  "limitStrOf limitQuery =
     (case limitQuery of
        Single s \<Rightarrow> s
      | Multiple xs \<Rightarrow> (case xs of [] \<Rightarrow> [] | x # rest \<Rightarrow> x)
      | Absent \<Rightarrow> [])"

definition normalizeLimit :: "raw \<Rightarrow> int \<Rightarrow> int" where
  "normalizeLimit limitQuery defaultLim =
     (case parseInt (limitStrOf limitQuery) of
        NaN \<Rightarrow> defaultLim
      | NegInfinity \<Rightarrow> defaultLim
      | PosInfinity \<Rightarrow> defaultLim
      | Fin limitNum \<Rightarrow>
          if limitNum \<le> 0 then defaultLim else min \<lfloor>limitNum\<rfloor> defaultLim)"

text \<open>A \<open>string | undefined\<close> passed where \<open>unknown\<close> is expected.\<close>

fun asRaw :: "jsstring option \<Rightarrow> raw" where
  "asRaw None = Absent"
| "asRaw (Some s) = Single s"

text \<open>Sequencing of computations that may throw: the first error is the result.\<close>

definition andThen :: "error + 'a \<Rightarrow> ('a \<Rightarrow> error + 'b) \<Rightarrow> error + 'b" where
  "andThen m f = (case m of Inl e \<Rightarrow> Inl e | Inr x \<Rightarrow> f x)"

text \<open>
  The raw query bag maps a field name to its value, \<open>Absent\<close> for a key that is not
  there. The properties of the object literal are evaluated in the order written, so the
  first call that throws decides the error.
  \<^verbatim>\<open>
  export const normalizeOrderQueryParams = (query, defaultLimit = 10) => ({
      page: parsePositiveInt(getSingleString(query.page), 1)!,
      limit: normalizeLimit(getSingleString(query.limit), defaultLimit),
      sortField: getSingleString(query.sortField) ?? "createdAt",
      sortOrder: parseSortOrder(getSingleString(query.sortOrder)),
      status: getSingleString(query.status),
      totalAmountFrom: parseNonNegativeNumber(getSingleString(query.totalAmountFrom)),
      totalAmountTo: parseNonNegativeNumber(getSingleString(query.totalAmountTo)),
      orderDateFrom: parseDate(getSingleString(query.orderDateFrom)),
      orderDateTo: parseDate(getSingleString(query.orderDateTo)),
      search: sanitizeSearch(getSingleString(query.search)),
  });
  \<close>
  The assertion \<open>!\<close> is unchecked: \<open>the\<close> takes the value out, and the default 1 makes
  the result of \<open>parsePositiveInt\<close> a number whenever it returns
  (lemma \<open>parsePositiveInt_default\<close>).
\<close>

record NormalizedOrderParams =
  page :: int
  limit :: int
  sortField :: jsstring
  sortOrder :: sortOrder
  status :: "jsstring option"
  totalAmountFrom :: "rat option"
  totalAmountTo :: "rat option"
  orderDateFrom :: "jsdate option"
  orderDateTo :: "jsdate option"
  search :: "jsstring option"

definition normalizeOrderQueryParams ::
  "(jsstring \<Rightarrow> jsdate) \<Rightarrow> (string \<Rightarrow> raw) \<Rightarrow> int \<Rightarrow> error + NormalizedOrderParams" where
  "normalizeOrderQueryParams dateCtor query defaultLimit =
     andThen (getSingleString (query ''page'')) (\<lambda>s1.
     andThen (parsePositiveInt s1 (Some 1)) (\<lambda>v1.
     andThen (getSingleString (query ''limit'')) (\<lambda>s2.
     andThen (getSingleString (query ''sortField'')) (\<lambda>s3.
     andThen (getSingleString (query ''sortOrder'')) (\<lambda>s4.
     andThen (parseSortOrder s4 Desc) (\<lambda>v4.
     andThen (getSingleString (query ''status'')) (\<lambda>s5.
     andThen (getSingleString (query ''totalAmountFrom'')) (\<lambda>s6.
     andThen (parseNonNegativeNumber s6) (\<lambda>v6.
     andThen (getSingleString (query ''totalAmountTo'')) (\<lambda>s7.
     andThen (parseNonNegativeNumber s7) (\<lambda>v7.
     andThen (getSingleString (query ''orderDateFrom'')) (\<lambda>s8.
     andThen (parseDate dateCtor s8) (\<lambda>v8.
     andThen (getSingleString (query ''orderDateTo'')) (\<lambda>s9.
     andThen (parseDate dateCtor s9) (\<lambda>v9.
     andThen (getSingleString (query ''search'')) (\<lambda>s10.
     andThen (sanitizeSearch s10) (\<lambda>v10.
       Inr \<lparr> page = the v1,
             limit = normalizeLimit (asRaw s2) defaultLimit,
             sortField = (case s3 of None \<Rightarrow> js ''createdAt'' | Some f \<Rightarrow> f),
             sortOrder = v4,
             status = s5,
             totalAmountFrom = v6,
             totalAmountTo = v7,
             orderDateFrom = v8,
             orderDateTo = v9,
             search = v10 \<rparr>)))))))))))))))))"

text \<open>
  \<^verbatim>\<open>
  export const normalizeCustomerQueryParams = (query, defaultLimit = 10) => ({
      page: parsePositiveInt(getSingleString(query.page), 1)!,
      limit: normalizeLimit(getSingleString(query.limit), defaultLimit),
      sortField: getSingleString(query.sortField) ?? "createdAt",
      sortOrder: parseSortOrder(getSingleString(query.sortOrder), "desc"),
      registrationDateFrom: parseDate(getSingleString(query.registrationDateFrom)),
      registrationDateTo: parseDate(getSingleString(query.registrationDateTo)),
      lastOrderDateFrom: parseDate(getSingleString(query.lastOrderDateFrom)),
      lastOrderDateTo: parseDate(getSingleString(query.lastOrderDateTo)),
      totalAmountFrom: parseNonNegativeNumber(getSingleString(query.totalAmountFrom)),
      totalAmountTo: parseNonNegativeNumber(getSingleString(query.totalAmountTo)),
      orderCountFrom: parseNonNegativeNumber(getSingleString(query.orderCountFrom)),
      orderCountTo: parseNonNegativeNumber(getSingleString(query.orderCountTo)),
      search: sanitizeSearch(getSingleString(query.search)),
  });
  \<close>
  The fields of the customer record carry the prefix \<open>c_\<close>, the plain names being those
  of the order record.
\<close>

record NormalizedCustomerParams =
  c_page :: int
  c_limit :: int
  c_sortField :: jsstring
  c_sortOrder :: sortOrder
  c_registrationDateFrom :: "jsdate option"
  c_registrationDateTo :: "jsdate option"
  c_lastOrderDateFrom :: "jsdate option"
  c_lastOrderDateTo :: "jsdate option"
  c_totalAmountFrom :: "rat option"
  c_totalAmountTo :: "rat option"
  c_orderCountFrom :: "rat option"
  c_orderCountTo :: "rat option"
  c_search :: "jsstring option"

definition normalizeCustomerQueryParams ::
  "(jsstring \<Rightarrow> jsdate) \<Rightarrow> (string \<Rightarrow> raw) \<Rightarrow> int \<Rightarrow> error + NormalizedCustomerParams" where
  "normalizeCustomerQueryParams dateCtor query defaultLimit =
     andThen (getSingleString (query ''page'')) (\<lambda>s1.
     andThen (parsePositiveInt s1 (Some 1)) (\<lambda>v1.
     andThen (getSingleString (query ''limit'')) (\<lambda>s2.
     andThen (getSingleString (query ''sortField'')) (\<lambda>s3.
     andThen (getSingleString (query ''sortOrder'')) (\<lambda>s4.
     andThen (parseSortOrder s4 Desc) (\<lambda>v4.
     andThen (getSingleString (query ''registrationDateFrom'')) (\<lambda>s5.
     andThen (parseDate dateCtor s5) (\<lambda>v5.
     andThen (getSingleString (query ''registrationDateTo'')) (\<lambda>s6.
     andThen (parseDate dateCtor s6) (\<lambda>v6.
     andThen (getSingleString (query ''lastOrderDateFrom'')) (\<lambda>s7.
     andThen (parseDate dateCtor s7) (\<lambda>v7.
     andThen (getSingleString (query ''lastOrderDateTo'')) (\<lambda>s8.
     andThen (parseDate dateCtor s8) (\<lambda>v8.
     andThen (getSingleString (query ''totalAmountFrom'')) (\<lambda>s9.
     andThen (parseNonNegativeNumber s9) (\<lambda>v9.
     andThen (getSingleString (query ''totalAmountTo'')) (\<lambda>s10.
     andThen (parseNonNegativeNumber s10) (\<lambda>v10.
     andThen (getSingleString (query ''orderCountFrom'')) (\<lambda>s11.
     andThen (parseNonNegativeNumber s11) (\<lambda>v11.
     andThen (getSingleString (query ''orderCountTo'')) (\<lambda>s12.
     andThen (parseNonNegativeNumber s12) (\<lambda>v12.
     andThen (getSingleString (query ''search'')) (\<lambda>s13.
     andThen (sanitizeSearch s13) (\<lambda>v13.
       Inr \<lparr> c_page = the v1,
             c_limit = normalizeLimit (asRaw s2) defaultLimit,
             c_sortField = (case s3 of None \<Rightarrow> js ''createdAt'' | Some f \<Rightarrow> f),
             c_sortOrder = v4,
             c_registrationDateFrom = v5,
             c_registrationDateTo = v6,
             c_lastOrderDateFrom = v7,
             c_lastOrderDateTo = v8,
             c_totalAmountFrom = v9,
             c_totalAmountTo = v10,
             c_orderCountFrom = v11,
             c_orderCountTo = v12,
             c_search = v13 \<rparr>))))))))))))))))))))))))"

section \<open>Filter, sort and pagination construction (controllers)\<close>

text \<open>
  A range condition \<open>{$gte?, $lte?}\<close>, a regular expression by its source and flags, and
  the conditions of the \<open>$or\<close> disjunctions.
\<close>

record 'a range =
  gte :: "'a option"
  lte :: "'a option"

datatype regexp = RegExp jsstring jsstring

datatype orderCond = ProductsTitle regexp | OrderNumber jsnum

type_synonym objectId = nat

datatype customerCond = NameMatches regexp | LastOrderIn "objectId list"

text \<open>The value of a \<open>string | undefined\<close> when it is truthy: defined and not empty.\<close>

fun truthy :: "jsstring option \<Rightarrow> jsstring option" where
  "truthy None = None"
| "truthy (Some s) = (if s = [] then None else Some s)"

text \<open>\<open>/^[a-zA-Z0-9_-]+$/.test(status)\<close> and \<open>/[^\w\s]/.test(search)\<close>.\<close>

definition status_test :: "jsstring \<Rightarrow> bool" where
  "status_test s \<longleftrightarrow>
     s \<noteq> [] \<and> list_all (\<lambda>c. isAsciiLetter c \<or> isDigit c \<or> c \<in> set (js ''_-'')) s"

definition isWordChar :: "nat \<Rightarrow> bool" where
  "isWordChar c \<longleftrightarrow> isAsciiLetter c \<or> isDigit c \<or> c = 95"

definition nonWordNonSpace_test :: "jsstring \<Rightarrow> bool" where
  "nonWordNonSpace_test s \<longleftrightarrow> list_ex (\<lambda>c. \<not> isWordChar c \<and> \<not> isWhiteSpace c) s"

text \<open>
  \<^verbatim>\<open>
  if (a !== undefined || b !== undefined) {
      filters.f = {};
      if (a !== undefined) filters.f.$gte = a;
      if (b !== undefined) filters.f.$lte = b;
  }
  \<close>
\<close>

text \<open>
  \<open>sort[key] = dir\<close> on the object \<open>sort = {}\<close>: an own property, but for the key
  \<open>__proto__\<close>, which reaches the setter of \<open>Object.prototype\<close>; the setter ignores a
  number, and \<open>sort\<close> stays empty.
\<close>

definition sortSpec :: "jsstring \<Rightarrow> int \<Rightarrow> (jsstring \<times> int) list" where
  "sortSpec key dir = (if key = js ''__proto__'' then [] else [(key, dir)])"

text \<open>
  \<open>(page - 1) * limit\<close> in binary64: the difference is rounded, then the product. The
  page and the limit are integers that are numbers of JavaScript.
\<close>

definition skipOf :: "int \<Rightarrow> int \<Rightarrow> jsnum" where
  "skipOf pageNo pageSize =
     (case doubleOfInt (pageNo - 1) of
        Fin d \<Rightarrow> doubleOfInt (\<lfloor>d\<rfloor> * pageSize)
      | PosInfinity \<Rightarrow> (if 0 < pageSize then PosInfinity else if pageSize < 0 then NegInfinity else NaN)
      | NegInfinity \<Rightarrow> (if 0 < pageSize then NegInfinity else if pageSize < 0 then PosInfinity else NaN)
      | NaN \<Rightarrow> NaN)"

definition plainRange :: "'a option \<Rightarrow> 'a option \<Rightarrow> 'a range option" where
  "plainRange a b = (if a \<noteq> None \<or> b \<noteq> None then Some \<lparr> gte = a, lte = b \<rparr> else None)"

subsection \<open>Orders: \<open>getOrders\<close> of controllers/order.ts\<close>

text \<open>
  \<^verbatim>\<open>
  const { page = 1, limit = 10, sortField = 'createdAt', sortOrder = 'desc', status,
          totalAmountFrom, totalAmountTo, orderDateFrom, orderDateTo, search,
  } = normalizeOrderQueryParams(req.query, 10)
  const filters = {}
  if (status) {
      if (typeof status === 'string' && /^[a-zA-Z0-9_-]+$/.test(status)) {
          filters.status = status
      } else { throw new BadRequestError(...) }
  }
  if (search) {
      if (/[^\w\s]/.test(search as string)) { throw new BadRequestError(...) }
  }
  if (status) { ... if (typeof status === 'string') { filters.status = status } }
  if (totalAmountFrom !== undefined || totalAmountTo !== undefined) { ... }
  if (orderDateFrom !== undefined || orderDateTo !== undefined) {
      filters.createdAt = {};
      if (orderDateFrom !== undefined) filters.createdAt.$gte = orderDateFrom;
      if (orderDateTo !== undefined) filters.createdAt.$lte = orderDateTo;
  }
  ...
  if (search) {
      const safeSearch = escapeRegExp(search as string)
      const searchRegex = new RegExp(safeSearch, 'i')
      const searchNumber = Number(search)
      const searchConditions: any[] = [{ 'products.title': searchRegex }]
      if (!Number.isNaN(searchNumber)) { searchConditions.push({ orderNumber: searchNumber }) }
      ...
      filters.$or = searchConditions
  }
  const sort = {}
  if (sortField && sortOrder) { sort[sortField as string] = sortOrder === 'desc' ? -1 : 1 }
  aggregatePipeline.push({ $sort: sort }, { $skip: (page - 1) * limit }, { $limit: limit }, ...)
  \<close>
  The defaults of the destructuring apply to \<open>undefined\<close> only, and the normalized record
  defines all four fields. \<open>escapeRegExp\<close> is imported from utils/escapeRegExp and is a
  parameter here. The result is what goes to the storage layer: the filters, the sort
  specification and the pagination window.
\<close>

record orderFilters =
  f_status :: "jsstring option"
  f_totalAmount :: "rat range option"
  f_createdAt :: "jsdate range option"
  f_or :: "orderCond list option"

record orderQuery =
  o_filters :: orderFilters
  o_sort :: "(jsstring \<times> int) list"
  o_skip :: jsnum
  o_limit :: int

definition searchConditions :: "(jsstring \<Rightarrow> jsstring) \<Rightarrow> jsstring \<Rightarrow> orderCond list" where
  "searchConditions escapeRegExp s =
     [ProductsTitle (RegExp (escapeRegExp s) (js ''i''))]
     @ (if Number s \<noteq> NaN then [OrderNumber (Number s)] else [])"

definition getOrders_build ::
  "(jsstring \<Rightarrow> jsstring) \<Rightarrow> NormalizedOrderParams \<Rightarrow> error + orderQuery" where
  "getOrders_build escapeRegExp p =
     (if (case truthy (status p) of Some st \<Rightarrow> \<not> status_test st | None \<Rightarrow> False)
      then Inl (BadRequestError InvalidStatus)
      else if (case truthy (search p) of Some s \<Rightarrow> nonWordNonSpace_test s | None \<Rightarrow> False)
      then Inl (BadRequestError InvalidSearchQuery)
      else Inr \<lparr>
        o_filters = \<lparr>
          f_status = truthy (status p),
          f_totalAmount = plainRange (totalAmountFrom p) (totalAmountTo p),
          f_createdAt = plainRange (orderDateFrom p) (orderDateTo p),
          f_or = map_option (searchConditions escapeRegExp) (truthy (search p)) \<rparr>,
        o_sort = (if sortField p = [] then []
                  else sortSpec (sortField p) (if sortOrder p = Desc then - 1 else 1)),
        o_skip = skipOf (page p) (limit p),
        o_limit = limit p \<rparr>)"

definition getOrders ::
  "(jsstring \<Rightarrow> jsdate) \<Rightarrow> (jsstring \<Rightarrow> jsstring) \<Rightarrow> (string \<Rightarrow> raw) \<Rightarrow> error + orderQuery" where
  "getOrders dateCtor escapeRegExp query =
     andThen (normalizeOrderQueryParams dateCtor query 10) (getOrders_build escapeRegExp)"

subsection \<open>Customers: \<open>getCustomers\<close> of controllers/customers.ts and of its near-duplicate\<close>

text \<open>
  \<^verbatim>\<open>
  const allowedSortFields = ['createdAt', 'totalAmount', 'orderCount', 'name'];
  const safeSortField = allowedSortFields.includes(sortField) ? sortField : 'createdAt';
  const filters = {};
  if (registrationDateFrom || registrationDateTo) {
      filters.createdAt = {};
      if (registrationDateFrom) filters.createdAt.$gte = registrationDateFrom;
      if (registrationDateTo) {
          const endOfDay = new Date(registrationDateTo);
          endOfDay.setHours(23, 59, 59, 999);
          filters.createdAt.$lte = endOfDay;
      }
  }
  ... (the same for lastOrderDate; totalAmount and orderCount as plain ranges)
  if (search && typeof search === 'string' && search.length <= 50) {
      const safeSearch = escapeRegExp(search)
      const searchRegex = new RegExp(safeSearch, 'i')
      const orders = await Order.find({ $or: [{ deliveryAddress: searchRegex }] }, '_id')
      const orderIds = orders.map((order) => order._id);
      filters.$or = [{ name: searchRegex }, { lastOrder: { $in: orderIds } }]
  } else {
      return next(new NotFoundError(...));
  }
  const sort = {};
  sort[safeSortField] = sortOrder === 'desc' ? -1 : 1;
  const options = { sort, skip: (page - 1) * limit, limit };
  \<close>
  A \<open>Date\<close> object is truthy. The lookup \<open>Order.find\<close> of the storage layer is the
  parameter \<open>findOrders\<close>. The near-duplicate (the second source file that defines
  \<open>getCustomers\<close>) has no \<open>else\<close> branch and calls its own \<open>escapeRegex\<close>, the replacement
  that \<open>sanitizeSearch\<close> does.
\<close>

record customerFilters =
  cf_createdAt :: "jsdate range option"
  cf_lastOrderDate :: "jsdate range option"
  cf_totalAmount :: "rat range option"
  cf_orderCount :: "rat range option"
  cf_or :: "customerCond list option"

record customerQuery =
  cq_filters :: customerFilters
  cq_sort :: "(jsstring \<times> int) list"
  cq_skip :: jsnum
  cq_limit :: int

definition allowedSortFields :: "jsstring list" where
  "allowedSortFields = [js ''createdAt'', js ''totalAmount'', js ''orderCount'', js ''name'']"

definition endOfDayRange :: "int \<Rightarrow> jsdate option \<Rightarrow> jsdate option \<Rightarrow> jsdate range option" where
  "endOfDayRange tz a b =
     (if a \<noteq> None \<or> b \<noteq> None
      then Some \<lparr> gte = a, lte = map_option (setHours_23_59_59_999 tz) b \<rparr>
      else None)"

definition customerSearch ::
  "(jsstring \<Rightarrow> jsstring) \<Rightarrow> (regexp \<Rightarrow> objectId list) \<Rightarrow> jsstring \<Rightarrow> customerCond list" where
  "customerSearch esc findOrders s =
     (let searchRegex = RegExp (esc s) (js ''i'')
      in [NameMatches searchRegex, LastOrderIn (findOrders searchRegex)])"

definition customerQueryOf ::
  "int \<Rightarrow> NormalizedCustomerParams \<Rightarrow> customerCond list option \<Rightarrow> customerQuery" where
  "customerQueryOf tz p orConds =
     \<lparr> cq_filters = \<lparr>
         cf_createdAt = endOfDayRange tz (c_registrationDateFrom p) (c_registrationDateTo p),
         cf_lastOrderDate = endOfDayRange tz (c_lastOrderDateFrom p) (c_lastOrderDateTo p),
         cf_totalAmount = plainRange (c_totalAmountFrom p) (c_totalAmountTo p),
         cf_orderCount = plainRange (c_orderCountFrom p) (c_orderCountTo p),
         cf_or = orConds \<rparr>,
       cq_sort = sortSpec
                   (if c_sortField p \<in> set allowedSortFields then c_sortField p
                    else js ''createdAt'')
                   (if c_sortOrder p = Desc then - 1 else 1),
       cq_skip = skipOf (c_page p) (c_limit p),
       cq_limit = c_limit p \<rparr>"

definition getCustomers_build ::
  "int \<Rightarrow> (jsstring \<Rightarrow> jsstring) \<Rightarrow> (regexp \<Rightarrow> objectId list) \<Rightarrow> NormalizedCustomerParams
     \<Rightarrow> error + customerQuery" where
  "getCustomers_build tz escapeRegExp findOrders p =
     (case truthy (c_search p) of
        Some s \<Rightarrow>
          if length s \<le> 50
          then Inr (customerQueryOf tz p (Some (customerSearch escapeRegExp findOrders s)))
          else Inl (NotFoundError InvalidSearchParameter)
      | None \<Rightarrow> Inl (NotFoundError InvalidSearchParameter))"

definition getCustomers ::
  "int \<Rightarrow> (jsstring \<Rightarrow> jsdate) \<Rightarrow> (jsstring \<Rightarrow> jsstring) \<Rightarrow> (regexp \<Rightarrow> objectId list)
     \<Rightarrow> (string \<Rightarrow> raw) \<Rightarrow> error + customerQuery" where
  "getCustomers tz dateCtor escapeRegExp findOrders query =
     andThen (normalizeCustomerQueryParams dateCtor query 10)
       (getCustomers_build tz escapeRegExp findOrders)"

definition getCustomers_alt_build ::
  "int \<Rightarrow> (regexp \<Rightarrow> objectId list) \<Rightarrow> NormalizedCustomerParams \<Rightarrow> error + customerQuery" where
  "getCustomers_alt_build tz findOrders p =
     (case truthy (c_search p) of
        Some s \<Rightarrow>
          if length s \<le> 50
          then Inr (customerQueryOf tz p (Some (customerSearch escapeRegex findOrders s)))
          else Inr (customerQueryOf tz p None)
      | None \<Rightarrow> Inr (customerQueryOf tz p None))"

definition getCustomers_alt ::
  "int \<Rightarrow> (jsstring \<Rightarrow> jsdate) \<Rightarrow> (regexp \<Rightarrow> objectId list) \<Rightarrow> (string \<Rightarrow> raw)
     \<Rightarrow> error + customerQuery" where
  "getCustomers_alt tz dateCtor findOrders query =
     andThen (normalizeCustomerQueryParams dateCtor query 10) (getCustomers_alt_build tz findOrders)"

section \<open>The recursive sanitizer of query and body objects (controllers/customers.ts)\<close>

text \<open>
  A value as \<open>req.query\<close> and \<open>req.body\<close> hold them. An object is its prototype,
  \<open>None\<close> for the default \<open>Object.prototype\<close>, and its own enumerable properties in the
  order of \<open>Object.keys\<close>. Values are finite trees, as the parsers of query strings and
  of JSON bodies make them.
\<close>

datatype jsval =
    JUndefined | JNull | JBool bool | JNumber rat | JString jsstring
  | JArray "jsval list"
  | JObject "jsval option" "(jsstring \<times> jsval) list"

text \<open>\<open>key.startsWith('$') || key.includes('.')\<close>\<close>

definition dangerousKey :: "jsstring \<Rightarrow> bool" where
  "dangerousKey key \<longleftrightarrow> take 1 key = js ''$'' \<or> 46 \<in> set key"

text \<open>
  \<open>cleanObj[key] = value\<close> on an object made by \<open>{}\<close>. The key \<open>__proto__\<close> reaches the
  setter of \<open>Object.prototype\<close>: it replaces the prototype when the value is an object
  or \<open>null\<close> and does nothing otherwise. Any other key becomes an own property, in
  place when the object has it already and last otherwise.
\<close>

fun isObjectOrNull :: "jsval \<Rightarrow> bool" where
  "isObjectOrNull JNull = True"
| "isObjectOrNull (JArray xs) = True"
| "isObjectOrNull (JObject p kvs) = True"
| "isObjectOrNull v = False"

fun putOwn :: "jsstring \<Rightarrow> jsval \<Rightarrow> (jsstring \<times> jsval) list \<Rightarrow> (jsstring \<times> jsval) list" where
  "putOwn k v [] = [(k, v)]"
| "putOwn k v ((k', v') # ps) = (if k' = k then (k, v) # ps else (k', v') # putOwn k v ps)"

definition setProperty ::
  "jsval option \<times> (jsstring \<times> jsval) list \<Rightarrow> jsstring \<Rightarrow> jsval
     \<Rightarrow> jsval option \<times> (jsstring \<times> jsval) list" where
  "setProperty obj key v =
     (if key = js ''__proto__''
      then (if isObjectOrNull v then (Some v, snd obj) else obj)
      else (fst obj, putOwn key v (snd obj)))"

text \<open>
  \<^verbatim>\<open>
  function sanitizeObject(obj: any): any {
      if (typeof obj !== 'object' || obj === null) return obj;
      if (Array.isArray(obj)) return obj.map(sanitizeObject);
      const cleanObj: any = {};
      Object.keys(obj).forEach((key) => {
          if (key.startsWith('$') || key.includes('.')) return;
          cleanObj[key] = sanitizeObject(obj[key]);
      });
      return cleanObj;
  }
  \<close>
\<close>

fun sanitizeObject :: "jsval \<Rightarrow> jsval" where
  "sanitizeObject (JArray xs) = JArray (map sanitizeObject xs)"
| "sanitizeObject (JObject proto props) =
     (case foldl (\<lambda>cleanObj (key, v).
                    if dangerousKey key then cleanObj
                    else setProperty cleanObj key (sanitizeObject v))
                 (None, []) props
      of (p, ps) \<Rightarrow> JObject p ps)"
| "sanitizeObject obj = obj"

text \<open>
  Every key of a value, at any depth: the keys of an object, of its prototype when it
  was replaced, and of the values nested in it and in arrays.
\<close>

fun allKeys :: "jsval \<Rightarrow> jsstring list" where
  "allKeys (JArray xs) = concat (map allKeys xs)"
| "allKeys (JObject proto props) =
     (case proto of None \<Rightarrow> [] | Some p \<Rightarrow> allKeys p)
     @ concat (map (\<lambda>(k, v). k # allKeys v) props)"
| "allKeys v = []"

text \<open>Invariants of the proof: a value, and an object under construction, free of dangerous keys.\<close>

definition cleanVal :: "jsval \<Rightarrow> bool" where
  "cleanVal v \<longleftrightarrow> (\<forall>k \<in> set (allKeys v). \<not> dangerousKey k)"

definition cleanKeys :: "jsval option \<times> (jsstring \<times> jsval) list \<Rightarrow> bool" where
  "cleanKeys obj \<longleftrightarrow>
     (\<forall>q. fst obj = Some q \<longrightarrow> cleanVal q)
     \<and> (\<forall>k v. (k, v) \<in> set (snd obj) \<longrightarrow> \<not> dangerousKey k \<and> cleanVal v)"

section \<open>Properties of the extraction and of the search sanitizer\<close>

text \<open>
  C6. \<open>getSingleString\<close> fails, with the error of a parameter that must not be an array,
  exactly when the raw value is an array of more than one element; a one-element array
  yields its element, a plain string itself, an absent value absence.
\<close>

theorem getSingleString_shape:
  "(getSingleString v = Inl (BadRequestError ParamMustNotBeArray)
      \<longleftrightarrow> (\<exists>xs. v = Multiple xs \<and> length xs > 1))
   \<and> (\<forall>e. getSingleString v = Inl e \<longrightarrow> e = BadRequestError ParamMustNotBeArray)
   \<and> getSingleString (Multiple [a]) = Inr (Some a)
   \<and> getSingleString (Single a) = Inr (Some a)
   \<and> getSingleString Absent = Inr None"
  by (cases v rule: getSingleString.cases) auto

text \<open>The scenario of C6: two values fail, one value is returned.\<close>

theorem getSingleString_shape_witness:
  "getSingleString (Multiple [js ''a'', js ''b'']) = Inl (BadRequestError ParamMustNotBeArray)
   \<and> getSingleString (Multiple [js ''a'']) = Inr (Some (js ''a''))
   \<and> getSingleString (Single (js ''a'')) = Inr (Some (js ''a''))
   \<and> getSingleString Absent = Inr None"
  using getSingleString_shape [of "Multiple [js ''a'', js ''b'']" "js ''a''"] by simp

subsection \<open>Trimming and escaping\<close>

lemma set_trim_subset: "set (trim s) \<subseteq> set s"
proof -
  have "set (trim s) = set (dropWhile isWhiteSpace (rev (dropWhile isWhiteSpace s)))"
    by (simp add: trim_def)
  also have "\<dots> \<subseteq> set (rev (dropWhile isWhiteSpace s))"
    by (rule set_dropWhileD [THEN subsetI])
  also have "\<dots> \<subseteq> set s"
    using set_dropWhileD [of _ isWhiteSpace s] by auto
  finally show ?thesis .
qed

lemma dropWhile_id_hd: "xs \<noteq> [] \<Longrightarrow> \<not> P (hd xs) \<Longrightarrow> dropWhile P xs = xs"
  by (cases xs) auto

lemma last_dropWhile: "dropWhile P xs \<noteq> [] \<Longrightarrow> last (dropWhile P xs) = last xs"
  by (induction xs) (auto split: if_splits)

lemma trim_fixed:
  assumes "t \<noteq> []" "\<not> isWhiteSpace (hd t)" "\<not> isWhiteSpace (last t)"
  shows "trim t = t"
proof -
  have a: "dropWhile isWhiteSpace t = t"
    using assms by (simp add: dropWhile_id_hd)
  have "hd (rev t) = last t" using assms(1) by (simp add: hd_rev)
  then have b: "dropWhile isWhiteSpace (rev t) = rev t"
    using assms by (simp add: dropWhile_id_hd)
  show ?thesis by (simp add: trim_def a b)
qed

lemma trim_ends:
  assumes "trim s \<noteq> []"
  shows "\<not> isWhiteSpace (hd (trim s)) \<and> \<not> isWhiteSpace (last (trim s))"
proof -
  define u where "u = dropWhile isWhiteSpace s"
  define x where "x = dropWhile isWhiteSpace (rev u)"
  have t: "trim s = rev x" by (simp add: trim_def u_def x_def)
  with assms have xne: "x \<noteq> []" by simp
  then have une: "u \<noteq> []" by (auto simp: x_def)
  have "\<not> isWhiteSpace (hd x)" using xne unfolding x_def by (rule hd_dropWhile)
  then have l: "\<not> isWhiteSpace (last (trim s))" using xne by (simp add: t last_rev)
  have "last x = last (rev u)" using xne unfolding x_def by (rule last_dropWhile)
  also have "\<dots> = hd u" using une by (simp add: last_rev)
  finally have "hd (trim s) = hd u" using xne by (simp add: t hd_rev)
  moreover have "\<not> isWhiteSpace (hd u)" using une unfolding u_def by (rule hd_dropWhile)
  ultimately show ?thesis using l by simp
qed

lemma trim_idem: "trim (trim s) = trim s"
proof (cases "trim s = []")
  case True
  have "trim [] = []" by (simp add: trim_def)
  with True show ?thesis by simp
next
  case False
  then show ?thesis using trim_ends [OF False] by (simp add: trim_fixed)
qed

lemma escapeRegex_Nil: "escapeRegex [] = []"
  by (simp add: escapeRegex_def)

lemma escapeRegex_Cons:
  "escapeRegex (c # t) = (if isRegexMeta c then [92, c] else [c]) @ escapeRegex t"
  by (simp add: escapeRegex_def)

lemma escapeRegex_id: "\<not> list_ex isRegexMeta t \<Longrightarrow> escapeRegex t = t"
  by (induction t) (auto simp: escapeRegex_def)

lemma escapeRegex_Nil_iff: "escapeRegex t = [] \<longleftrightarrow> t = []"
  by (cases t) (auto simp: escapeRegex_def)

lemma hd_escapeRegex: "t \<noteq> [] \<Longrightarrow> hd (escapeRegex t) = (if isRegexMeta (hd t) then 92 else hd t)"
  by (cases t) (auto simp: escapeRegex_def)

lemma last_escapeRegex: "t \<noteq> [] \<Longrightarrow> last (escapeRegex t) = last t"
  by (induction t) (simp_all add: escapeRegex_Nil escapeRegex_Cons escapeRegex_Nil_iff)

lemma set_escapeRegex: "set (escapeRegex t) = set t \<union> (if list_ex isRegexMeta t then {92} else {})"
  by (induction t) (auto simp: escapeRegex_def)

lemma not_ws_92: "\<not> isWhiteSpace 92"
  by (simp add: isWhiteSpace_def)

lemma not_allowed_92: "\<not> allowedChar 92"
  by (simp add: allowedChar_def isWhiteSpace_def isDigit_def isAsciiLetter_def js_def)

lemma allowed_meta: "allowedChar c \<Longrightarrow> isRegexMeta c \<longleftrightarrow> c = 46 \<or> c = 43"
  by (auto simp: allowedChar_def isRegexMeta_def isWhiteSpace_def isDigit_def isAsciiLetter_def js_def)

lemma in_dropWhile: "c \<in> set xs \<Longrightarrow> \<not> P c \<Longrightarrow> c \<in> set (dropWhile P xs)"
  by (induction xs) auto

lemma in_trim: "c \<in> set s \<Longrightarrow> \<not> isWhiteSpace c \<Longrightarrow> c \<in> set (trim s)"
  by (simp add: trim_def in_dropWhile)

lemma trim_Nil_all_ws: "trim s = [] \<Longrightarrow> c \<in> set s \<Longrightarrow> isWhiteSpace c"
  using in_trim [of c s] by auto

text \<open>
  C5. A search value whose trimmed form has a character outside the class
  \<open>[a-zA-Z0-9\s\-_.+%]\<close> makes \<open>sanitizeSearch\<close> throw the \<open>BadRequestError\<close> of a search
  with invalid characters; the value is neither escaped nor passed through.
\<close>

theorem sanitizeSearch_rejects:
  assumes "\<exists>c \<in> set (trim v). \<not> allowedChar c"
  shows "sanitizeSearch (Some v) = Inl (BadRequestError SearchHasInvalidChars)"
proof -
  from assms have ne: "trim v \<noteq> []" by auto
  then have "v \<noteq> []" by (auto simp: trim_def)
  moreover from assms have "\<not> allowed_test (trim v)"
    by (auto simp: allowed_test_def list_all_iff)
  ultimately show ?thesis using ne by (simp add: sanitizeSearch_def)
qed

text \<open>The scenario of C5: the apostrophe (code unit 39) of \<open>O'Brien\<close> is not in the class.\<close>

theorem sanitizeSearch_rejects_witness:
  "(\<exists>c \<in> set (trim (js ''O'Brien'')). \<not> allowedChar c)
   \<and> sanitizeSearch (Some (js ''O'Brien'')) = Inl (BadRequestError SearchHasInvalidChars)"
proof -
  have "39 \<in> set (trim (js ''O'Brien''))"
    by (simp add: js_def trim_def isWhiteSpace_def)
  moreover have "\<not> allowedChar 39"
    by (simp add: allowedChar_def isWhiteSpace_def isDigit_def isAsciiLetter_def js_def)
  ultimately have h: "\<exists>c \<in> set (trim (js ''O'Brien'')). \<not> allowedChar c" by blast
  from h sanitizeSearch_rejects [OF h] show ?thesis by simp
qed

lemma escapeRegex_allowed:
  "list_all allowedChar t
   \<Longrightarrow> escapeRegex t = concat (map (\<lambda>c. if c = 46 \<or> c = 43 then [92, c] else [c]) t)"
proof (induction t)
  case Nil
  then show ?case by (simp add: escapeRegex_Nil)
next
  case (Cons c t)
  then show ?case using allowed_meta [of c] by (simp add: escapeRegex_Cons)
qed

lemma sanitizeSearch_output:
  assumes "list_all allowedChar s"
  shows "sanitizeSearch (Some s) =
           Inr (if trim s = [] then None else Some (escapeRegex (trim s)))"
proof (cases "trim s = []")
  case True
  then show ?thesis by (simp add: sanitizeSearch_def)
next
  case False
  then have "s \<noteq> []" by (auto simp: trim_def)
  moreover have "list_all allowedChar (trim s)"
    using assms set_trim_subset [of s] by (auto simp: list_all_iff)
  ultimately show ?thesis using False by (simp add: sanitizeSearch_def allowed_test_def)
qed

lemma trim_escapeRegex:
  assumes "trim s \<noteq> []"
  shows "trim (escapeRegex (trim s)) = escapeRegex (trim s)"
proof -
  have ends: "\<not> isWhiteSpace (hd (trim s))" "\<not> isWhiteSpace (last (trim s))"
    using trim_ends [OF assms] by simp_all
  have "\<not> isWhiteSpace (hd (escapeRegex (trim s)))"
    using ends assms by (simp add: hd_escapeRegex not_ws_92)
  moreover have "\<not> isWhiteSpace (last (escapeRegex (trim s)))"
    using ends assms by (simp add: last_escapeRegex)
  moreover have "escapeRegex (trim s) \<noteq> []"
    using assms by (simp add: escapeRegex_Nil_iff)
  ultimately show ?thesis by (simp add: trim_fixed)
qed

lemma meta_in_trim:
  assumes "list_all allowedChar s"
  shows "list_ex isRegexMeta (trim s) \<longleftrightarrow> 46 \<in> set s \<or> 43 \<in> set s"
proof
  assume "list_ex isRegexMeta (trim s)"
  then obtain c where c: "c \<in> set (trim s)" "isRegexMeta c" by (auto simp: list_ex_iff)
  then have in_s: "c \<in> set s" using set_trim_subset [of s] by auto
  then have "allowedChar c" using assms by (auto simp: list_all_iff)
  then have "c = 46 \<or> c = 43" using c(2) by (simp add: allowed_meta)
  with in_s show "46 \<in> set s \<or> 43 \<in> set s" by auto
next
  assume "46 \<in> set s \<or> 43 \<in> set s"
  then obtain c where c: "c \<in> set s" "c = 46 \<or> c = 43" by auto
  then have "\<not> isWhiteSpace c" by (auto simp: isWhiteSpace_def)
  then have "c \<in> set (trim s)" using c(1) by (simp add: in_trim)
  moreover have "isRegexMeta c" using c(2) by (auto simp: isRegexMeta_def js_def)
  ultimately show "list_ex isRegexMeta (trim s)" by (auto simp: list_ex_iff)
qed

text \<open>
  C2, as the code has it. For a search string of allowed characters only, \<open>sanitizeSearch\<close>
  returns: nothing when the string is white space only, and otherwise the trimmed
  string with a backslash (92) put before every dot (46) and every plus (43), the two
  allowed characters that are escaped. When the string has neither, the output is the
  trimmed string, and sanitizing the output gives the output again. When it has one, the
  output holds an inserted backslash, which is outside the allowed class, and sanitizing
  the output throws the error of a search with invalid characters.
\<close>

theorem sanitizeSearch_again:
  assumes "list_all allowedChar s"
  shows "sanitizeSearch (Some s) =
           Inr (if trim s = [] then None
                else Some (concat (map (\<lambda>c. if c = 46 \<or> c = 43 then [92, c] else [c]) (trim s))))
       \<and> (46 \<notin> set s \<and> 43 \<notin> set s
            \<longrightarrow> sanitizeSearch (Some s) = Inr (if trim s = [] then None else Some (trim s))
                \<and> sanitizeSearch (if trim s = [] then None else Some (trim s))
                    = Inr (if trim s = [] then None else Some (trim s)))
       \<and> (46 \<in> set s \<or> 43 \<in> set s
            \<longrightarrow> (\<exists>r. sanitizeSearch (Some s) = Inr (Some r) \<and> 92 \<in> set r \<and> \<not> allowedChar 92
                    \<and> sanitizeSearch (Some r) = Inl (BadRequestError SearchHasInvalidChars)))"
proof (intro conjI impI)
  have all: "list_all allowedChar (trim s)"
    using assms set_trim_subset [of s] by (auto simp: list_all_iff)
  show "sanitizeSearch (Some s) =
           Inr (if trim s = [] then None
                else Some (concat (map (\<lambda>c. if c = 46 \<or> c = 43 then [92, c] else [c]) (trim s))))"
    using sanitizeSearch_output [OF assms] escapeRegex_allowed [OF all] by simp
next
  assume plain: "46 \<notin> set s \<and> 43 \<notin> set s"
  then have "\<not> list_ex isRegexMeta (trim s)" using meta_in_trim [OF assms] by simp
  then have same: "escapeRegex (trim s) = trim s" by (rule escapeRegex_id)
  show "sanitizeSearch (Some s) = Inr (if trim s = [] then None else Some (trim s))"
    using sanitizeSearch_output [OF assms] same by simp
  show "sanitizeSearch (if trim s = [] then None else Some (trim s))
          = Inr (if trim s = [] then None else Some (trim s))"
  proof (cases "trim s = []")
    case True
    then show ?thesis by (simp add: sanitizeSearch_def)
  next
    case False
    have all: "list_all allowedChar (trim s)"
      using assms set_trim_subset [of s] by (auto simp: list_all_iff)
    have "sanitizeSearch (Some (trim s)) = Inr (Some (escapeRegex (trim (trim s))))"
      using sanitizeSearch_output [OF all] False by (simp add: trim_idem)
    then show ?thesis using False same by (simp add: trim_idem)
  qed
next
  assume esc: "46 \<in> set s \<or> 43 \<in> set s"
  then have meta: "list_ex isRegexMeta (trim s)" using meta_in_trim [OF assms] by simp
  then have ne: "trim s \<noteq> []" by auto
  define r where "r = escapeRegex (trim s)"
  have first: "sanitizeSearch (Some s) = Inr (Some r)"
    using sanitizeSearch_output [OF assms] ne by (simp add: r_def)
  have in_r: "92 \<in> set r" using meta by (simp add: r_def set_escapeRegex)
  have rne: "r \<noteq> []" using ne by (simp add: r_def escapeRegex_Nil_iff)
  have "trim r = r" unfolding r_def using ne by (rule trim_escapeRegex)
  moreover have "\<not> allowed_test r"
    using in_r not_allowed_92 by (auto simp: allowed_test_def list_all_iff)
  ultimately have "sanitizeSearch (Some r) = Inl (BadRequestError SearchHasInvalidChars)"
    using rne by (simp add: sanitizeSearch_def)
  with first in_r not_allowed_92
  show "\<exists>r. sanitizeSearch (Some s) = Inr (Some r) \<and> 92 \<in> set r \<and> \<not> allowedChar 92
          \<and> sanitizeSearch (Some r) = Inl (BadRequestError SearchHasInvalidChars)"
    by blast
qed

text \<open>
  Instances of C2: \<open>ab 12\<close> between blanks comes back trimmed and is stable; in \<open>a+b\<close> the
  plus gets a backslash, and the output is rejected.
\<close>

theorem sanitizeSearch_again_witness:
  "list_all allowedChar (js '' ab 12 '') \<and> list_all allowedChar (js ''a+b'')
   \<and> sanitizeSearch (Some (js '' ab 12 '')) = Inr (Some (js ''ab 12''))
   \<and> sanitizeSearch (Some (js ''ab 12'')) = Inr (Some (js ''ab 12''))
   \<and> sanitizeSearch (Some (js ''a+b'')) = Inr (Some [97, 92, 43, 98])
   \<and> sanitizeSearch (Some [97, 92, 43, 98]) = Inl (BadRequestError SearchHasInvalidChars)"
proof -
  have h1: "list_all allowedChar (js '' ab 12 '')" and h2: "list_all allowedChar (js ''a+b'')"
    by (simp_all add: js_def allowedChar_def isWhiteSpace_def isDigit_def isAsciiLetter_def)
  have t1: "trim (js '' ab 12 '') = js ''ab 12''" and t2: "trim (js ''a+b'') = js ''a+b''"
    by (simp_all add: js_def trim_def isWhiteSpace_def)
  have m1: "46 \<notin> set (js '' ab 12 '') \<and> 43 \<notin> set (js '' ab 12 '')"
    and m2: "46 \<in> set (js ''a+b'') \<or> 43 \<in> set (js ''a+b'')"
    by (simp_all add: js_def)
  have e: "js ''ab 12'' \<noteq> []" "js ''a+b'' = [97, 43, 98]"
    by (simp_all add: js_def)
  from sanitizeSearch_again [OF h1, THEN conjunct2, THEN conjunct1] m1 t1 e
  have a: "sanitizeSearch (Some (js '' ab 12 '')) = Inr (Some (js ''ab 12''))
           \<and> sanitizeSearch (Some (js ''ab 12'')) = Inr (Some (js ''ab 12''))"
    by simp
  from sanitizeSearch_again [OF h2] m2 t2 e
  have b: "sanitizeSearch (Some (js ''a+b'')) = Inr (Some [97, 92, 43, 98])
           \<and> sanitizeSearch (Some [97, 92, 43, 98]) = Inl (BadRequestError SearchHasInvalidChars)"
    by auto
  from h1 h2 a b show ?thesis by simp
qed

text \<open>
  C2 as the specification words it, idempotence on every string of allowed characters,
  fails at \<open>a.b\<close>: the output has a backslash before the dot, and the sanitizer
  rejects it.
\<close>

theorem sanitizeSearch_not_idempotent:
  "list_all allowedChar (js ''a.b'')
   \<and> sanitizeSearch (Some (js ''a.b'')) = Inr (Some (js ''a'' @ [92] @ js ''.b''))
   \<and> sanitizeSearch (Some (js ''a'' @ [92] @ js ''.b'')) = Inl (BadRequestError SearchHasInvalidChars)"
  by (simp add: js_def sanitizeSearch_def trim_def allowed_test_def allowedChar_def
      isWhiteSpace_def isDigit_def isAsciiLetter_def escapeRegex_def isRegexMeta_def)

section \<open>Properties of the recursive sanitizer\<close>

lemma cleanVal_JObject: "cleanVal (JObject p ps) \<longleftrightarrow> cleanKeys (p, ps)"
  unfolding cleanVal_def cleanKeys_def
  by (cases p) (simp_all, blast+)

lemma cleanVal_JArray: "cleanVal (JArray xs) \<longleftrightarrow> (\<forall>x \<in> set xs. cleanVal x)"
  unfolding cleanVal_def by auto

lemma set_putOwn: "set (putOwn key v ps) \<subseteq> insert (key, v) (set ps)"
  by (induction ps) (auto split: if_splits)

lemma cleanKeys_setProperty:
  assumes "cleanKeys obj" "\<not> dangerousKey key" "cleanVal v"
  shows "cleanKeys (setProperty obj key v)"
proof (cases "key = js ''__proto__''")
  case True
  then show ?thesis using assms by (simp add: setProperty_def cleanKeys_def)
next
  case False
  have "\<not> dangerousKey k \<and> cleanVal w" if "(k, w) \<in> set (putOwn key v (snd obj))" for k w
  proof -
    from that set_putOwn have "(k, w) = (key, v) \<or> (k, w) \<in> set (snd obj)" by fastforce
    then show ?thesis using assms by (auto simp: cleanKeys_def)
  qed
  then show ?thesis using assms(1) False by (simp add: setProperty_def cleanKeys_def)
qed

lemma cleanKeys_foldl:
  assumes "cleanKeys obj"
    and "\<And>key v. (key, v) \<in> set props \<Longrightarrow> \<not> dangerousKey key \<Longrightarrow> cleanVal (f v)"
  shows "cleanKeys (foldl (\<lambda>cleanObj (key, v).
                      if dangerousKey key then cleanObj
                      else setProperty cleanObj key (f v)) obj props)"
  using assms
proof (induction props arbitrary: obj)
  case Nil
  then show ?case by simp
next
  case (Cons p props)
  obtain key v where p: "p = (key, v)" by (cases p)
  show ?case
  proof (cases "dangerousKey key")
    case True
    have "cleanKeys (foldl (\<lambda>cleanObj (key, v).
                      if dangerousKey key then cleanObj
                      else setProperty cleanObj key (f v)) obj props)"
      using Cons.prems by (intro Cons.IH) auto
    then show ?thesis using True by (simp add: p)
  next
    case False
    have "cleanKeys (setProperty obj key (f v))"
      using Cons.prems False by (intro cleanKeys_setProperty) (auto simp: p)
    then have "cleanKeys (foldl (\<lambda>cleanObj (key, v).
                      if dangerousKey key then cleanObj
                      else setProperty cleanObj key (f v)) (setProperty obj key (f v)) props)"
      using Cons.prems by (intro Cons.IH) auto
    then show ?thesis using False by (simp add: p)
  qed
qed

lemma cleanVal_sanitizeObject: "cleanVal (sanitizeObject obj)"
proof (induction obj rule: sanitizeObject.induct)
  case (1 xs)
  then show ?case by (simp add: cleanVal_JArray)
next
  case (2 proto props)
  have "cleanKeys (foldl (\<lambda>cleanObj (key, v).
                      if dangerousKey key then cleanObj
                      else setProperty cleanObj key (sanitizeObject v)) (None, []) props)"
    using 2 by (intro cleanKeys_foldl) (auto simp: cleanKeys_def)
  then show ?case by (auto simp: cleanVal_JObject split: prod.splits)
qed (simp_all add: cleanVal_def)

text \<open>
  C7. In the value \<open>sanitizeObject\<close> returns, no key at any depth starts with \<open>$\<close> or
  contains a dot.
\<close>

theorem sanitizeObject_no_dangerous_keys:
  assumes "k \<in> set (allKeys (sanitizeObject obj))"
  shows "take 1 k \<noteq> js ''$'' \<and> 46 \<notin> set k"
  using assms cleanVal_sanitizeObject [of obj] by (auto simp: cleanVal_def dangerousKey_def)

text \<open>
  An instance of C7: of the keys \<open>$where\<close>, \<open>a\<close>, \<open>b\<close> and \<open>c.d\<close>, the sanitizer keeps
  \<open>a\<close> and the nested \<open>b\<close>.
\<close>

theorem sanitizeObject_no_dangerous_keys_witness:
  "js ''b'' \<in> set (allKeys (sanitizeObject
      (JObject None [(js ''$where'', JString (js ''1'')),
                     (js ''a'', JObject None [(js ''b'', JNull), (js ''c.d'', JNull)])])))
   \<and> take 1 (js ''b'') \<noteq> js ''$'' \<and> 46 \<notin> set (js ''b'')"
proof -
  have h: "js ''b'' \<in> set (allKeys (sanitizeObject
      (JObject None [(js ''$where'', JString (js ''1'')),
                     (js ''a'', JObject None [(js ''b'', JNull), (js ''c.d'', JNull)])])))"
    by (simp add: js_def dangerousKey_def setProperty_def)
  from h sanitizeObject_no_dangerous_keys [OF h] show ?thesis by simp
qed

section \<open>Properties of the scalar parsers and of the normalizers\<close>

subsection \<open>Rounding to binary64\<close>

lemma bitlen_0: "bitlen 0 = 0"
  by (simp add: bitlen.simps)

lemma bitlen_1: "bitlen 1 = 1"
  by (subst bitlen.simps) (simp add: bitlen_0)

lemma bitlen_Suc_0: "bitlen (Suc 0) = Suc 0"
  using bitlen_1 by simp

lemma bitlen_numeral: "bitlen (numeral n) = Suc (bitlen (numeral n div 2))"
  by (subst bitlen.simps) simp

text \<open>Evaluation of the rounding on numerals.\<close>

lemmas double_eval = toDouble_def floorLog2_def roundHalfEven_def Let_def
  bitlen_0 bitlen_1 bitlen_numeral

lemma bitlen_upper: "n < 2 ^ bitlen n"
proof (induction n rule: bitlen.induct)
  case (1 n)
  show ?case
  proof (cases "n = 0")
    case True
    then show ?thesis by (simp add: bitlen_0)
  next
    case False
    with 1 have "n div 2 < 2 ^ bitlen (n div 2)" by simp
    then have "n < 2 * 2 ^ bitlen (n div 2)" by linarith
    moreover have "bitlen n = Suc (bitlen (n div 2))"
      using False by (subst bitlen.simps) simp
    ultimately show ?thesis by simp
  qed
qed

lemma bitlen_lower: "0 < n \<Longrightarrow> 2 ^ (bitlen n - 1) \<le> n"
proof (induction n rule: bitlen.induct)
  case (1 n)
  then have n: "n \<noteq> 0" by simp
  have b: "bitlen n = Suc (bitlen (n div 2))"
    using n by (subst bitlen.simps) simp
  show ?case
  proof (cases "n div 2 = 0")
    case True
    then show ?thesis using n b by (simp add: bitlen_0)
  next
    case False
    then have "2 ^ (bitlen (n div 2) - 1) \<le> n div 2" using 1 n by simp
    moreover have "bitlen (n div 2) \<noteq> 0"
      using False by (subst bitlen.simps) simp
    then have "(2::nat) ^ bitlen (n div 2) = 2 * 2 ^ (bitlen (n div 2) - 1)"
      by (cases "bitlen (n div 2)") auto
    ultimately have "2 ^ bitlen (n div 2) \<le> n" by linarith
    then show ?thesis by (simp add: b)
  qed
qed

lemma bitlen_pos: "0 < n \<Longrightarrow> 0 < bitlen n"
  by (subst bitlen.simps) simp

lemma roundHalfEven_one: "roundHalfEven x 1 = x" "roundHalfEven x (Suc 0) = x"
  by (simp_all add: roundHalfEven_def)

lemma toDouble_zero: "toDouble 0 b = Fin 0"
  by (simp add: toDouble_def)

lemma toDouble_nonneg: "toDouble a b = PosInfinity \<or> (\<exists>q\<ge>0. toDouble a b = Fin q)"
  by (auto simp: toDouble_def Let_def)

lemma toDouble_exact_1:
  assumes "0 < n" "n < 2 ^ 53"
  shows "toDouble n 1 = Fin (of_nat n)"
proof -
  have pos: "0 < bitlen n" using assms(1) by (rule bitlen_pos)
  have low: "2 ^ (bitlen n - 1) \<le> n" using assms(1) by (rule bitlen_lower)
  then have "(2::nat) ^ (bitlen n - 1) < 2 ^ 53" using assms(2) by linarith
  then have le: "bitlen n - 1 < 53"
    using power_less_imp_less_exp [of 2 "bitlen n - 1" 53] by simp
  have e0: "nat (int (bitlen n) - 1) = bitlen n - 1" by simp
  have fl: "floorLog2 n 1 = int (bitlen n) - 1"
    using pos low by (simp add: floorLog2_def bitlen_Suc_0 Let_def e0 Suc_leI)
  have k: "max (floorLog2 n 1) (- 1022) - 52 = int (bitlen n) - 53"
    unfolding fl using pos by simp
  have big: "\<not> (2::nat) ^ 1024 \<le> n"
  proof -
    have "(2::nat) ^ 53 < 2 ^ 1024" by simp
    with assms(2) show ?thesis by linarith
  qed
  show ?thesis
  proof (cases "bitlen n = 53")
    case True
    then show ?thesis
      unfolding toDouble_def k Let_def using assms(1) big
      by (simp add: roundHalfEven_one)
  next
    case False
    then have neg: "\<not> 0 \<le> int (bitlen n) - 53" using le pos by simp
    have "(of_nat (n * 2 ^ nat (- (int (bitlen n) - 53))) :: rat)
            / 2 ^ nat (- (int (bitlen n) - 53)) = of_nat n" by simp
    then show ?thesis
      unfolding toDouble_def k Let_def using assms(1) neg
      by (simp add: roundHalfEven_one)
  qed
qed

lemma toDouble_exact:
  assumes "0 < n" "n < 2 ^ 53"
  shows "toDouble n 1 = Fin (of_nat n)" and "toDouble n (Suc 0) = Fin (of_nat n)"
  using toDouble_exact_1 [OF assms] by simp_all

lemma doubleOfInt_exact: "\<bar>i\<bar> < 2 ^ 53 \<Longrightarrow> doubleOfInt i = Fin (of_int i)"
proof (cases "i = 0")
  case True
  then show ?thesis by (simp add: doubleOfInt_def toDouble_zero)
next
  case False
  assume a: "\<bar>i\<bar> < 2 ^ 53"
  show ?thesis
  proof (cases "i < 0")
    case True
    then have "0 < nat (- i)" "nat (- i) < 2 ^ 53" using a by auto
    then have "toDouble (nat (- i)) 1 = Fin (of_nat (nat (- i)))" by (rule toDouble_exact_1)
    then show ?thesis using True by (simp add: doubleOfInt_def)
  next
    case F: False
    then have "0 < nat i" "nat i < 2 ^ 53" using a False by auto
    then have "toDouble (nat i) 1 = Fin (of_nat (nat i))" by (rule toDouble_exact_1)
    then show ?thesis using F by (simp add: doubleOfInt_def)
  qed
qed

subsection \<open>\<open>parseInt\<close> and the limit\<close>

lemma digit_not_ws: "isDigit c \<Longrightarrow> \<not> isWhiteSpace c"
  by (auto simp: isDigit_def isWhiteSpace_def)

lemma takeWhile_all: "list_all P xs \<Longrightarrow> takeWhile P xs = xs"
  by (induction xs) auto

lemma dropWhile_all: "list_all P xs \<Longrightarrow> dropWhile P xs = []"
  by (induction xs) auto

lemma dropWhile_append_stop:
  "list_all P ws \<Longrightarrow> xs = [] \<or> \<not> P (hd xs) \<Longrightarrow> dropWhile P (ws @ xs) = xs"
proof (induction ws)
  case Nil
  then show ?case by (cases xs) auto
next
  case (Cons w ws)
  then show ?case by simp
qed

lemma takeWhile_append_stop:
  "list_all P ds \<Longrightarrow> xs = [] \<or> \<not> P (hd xs) \<Longrightarrow> takeWhile P (ds @ xs) = ds"
proof (induction ds)
  case Nil
  then show ?case by (cases xs) auto
next
  case (Cons d ds)
  then show ?case by simp
qed

lemma parseInt_Nil: "parseInt [] = NaN"
  by (simp add: parseInt_def)

text \<open>
  What \<open>parseInt\<close> reads: white space \<open>ws\<close>, a sign \<open>sg\<close> or none, the digits \<open>ds\<close>, and
  a rest that does not go on with a digit (nor, when there is neither sign nor digit,
  with white space or a sign) and is not looked at.
\<close>

lemma parseInt_parts:
  assumes "list_all isWhiteSpace ws"
    and "sg = [] \<or> sg = js ''+'' \<or> sg = js ''-''"
    and "list_all isDigit ds"
    and "rest = [] \<or> \<not> isDigit (hd rest)"
    and "sg = [] \<and> ds = []
         \<longrightarrow> rest = [] \<or> (\<not> isWhiteSpace (hd rest) \<and> hd rest \<noteq> 43 \<and> hd rest \<noteq> 45)"
  shows "parseInt (ws @ sg @ ds @ rest) =
           (if ds = [] then NaN
            else if sg = js ''-'' then negate (toDouble (digitsVal ds) 1)
            else toDouble (digitsVal ds) 1)"
proof -
  have tw: "takeWhile isDigit (ds @ rest) = ds"
    using assms(3,4) by (rule takeWhile_append_stop)
  have dhd: "ds \<noteq> [] \<Longrightarrow> isDigit (hd (ds @ rest))"
    using assms(3) by (cases ds) auto
  have stop: "sg @ ds @ rest = [] \<or> \<not> isWhiteSpace (hd (sg @ ds @ rest))"
  proof (cases "sg = []")
    case False
    then have "hd (sg @ ds @ rest) = 43 \<or> hd (sg @ ds @ rest) = 45"
      using assms(2) by (auto simp: js_def)
    then show ?thesis by (auto simp: isWhiteSpace_def)
  next
    case True
    show ?thesis
    proof (cases "ds = []")
      case False
      then show ?thesis using True dhd digit_not_ws by auto
    next
      case T: True
      then show ?thesis using True assms(5) by auto
    qed
  qed
  have dw: "dropWhile isWhiteSpace (ws @ sg @ ds @ rest) = sg @ ds @ rest"
    using assms(1) stop by (rule dropWhile_append_stop)
  from assms(2) show ?thesis
  proof (elim disjE)
    assume sg: "sg = js ''+''"
    then show ?thesis
      unfolding parseInt_def dw
      by (simp add: js_def tw)
  next
    assume sg: "sg = js ''-''"
    then show ?thesis
      unfolding parseInt_def dw
      by (simp add: js_def tw)
  next
    assume sg: "sg = []"
    have nosign: "take 1 (ds @ rest) \<noteq> js ''-'' \<and> take 1 (ds @ rest) \<noteq> js ''+''"
    proof (cases "ds = []")
      case False
      then have "isDigit (hd (ds @ rest))" by (rule dhd)
      then have "hd (ds @ rest) \<noteq> 45 \<and> hd (ds @ rest) \<noteq> 43" by (simp add: isDigit_def)
      moreover have "ds @ rest \<noteq> []" using False by simp
      ultimately show ?thesis by (cases "ds @ rest") (auto simp: js_def)
    next
      case True
      then show ?thesis using sg assms(5) by (cases rest) (auto simp: js_def)
    qed
    moreover have "[] \<noteq> js ''-''" by (simp add: js_def)
    ultimately show ?thesis
      unfolding parseInt_def dw using sg
      by (simp add: tw)
  qed
qed

lemma parseInt_digits:
  assumes "s \<noteq> []" "list_all isDigit s"
  shows "parseInt s = toDouble (digitsVal s) 1"
  using parseInt_parts [of "[]" "[]" s "[]"] assms by (simp add: js_def)

lemma normalizeLimit_le: "normalizeLimit v d \<le> d"
  by (simp add: normalizeLimit_def split: jsnum.splits)

lemma normalizeLimit_negated:
  "parseInt (limitStrOf v) = negate (toDouble a b) \<Longrightarrow> normalizeLimit v d = d"
  using toDouble_nonneg [of a b] by (auto simp: normalizeLimit_def)

text \<open>
  C1, as the code has it. For a limit that is absent, a string or an array of strings,
  and an integer default \<open>d\<close>, \<open>normalizeLimit\<close> returns an integer that is at most \<open>d\<close>; it
  has no failing branch. An absent limit and an empty array give \<open>d\<close>. A string, or the
  first string of an array, is read as \<open>parseInt\<close> reads it: white space, an optional
  sign, the longest run of decimal digits, and a rest that is ignored. The result is \<open>d\<close>
  when there is no digit at that place, when the sign is a minus and when the digits
  spell 0; digits that spell a number above 0 (and below \<open>2^53\<close>) give the smaller of that
  number and \<open>d\<close>, whatever text follows them.
\<close>

theorem normalizeLimit_capped:
  "normalizeLimit v d \<le> d
   \<and> normalizeLimit Absent d = d
   \<and> normalizeLimit (Multiple []) d = d
   \<and> ((v = Single (ws @ sg @ ds @ rest) \<or> v = Multiple ((ws @ sg @ ds @ rest) # others))
        \<and> list_all isWhiteSpace ws
        \<and> (sg = [] \<or> sg = js ''+'' \<or> sg = js ''-'')
        \<and> list_all isDigit ds
        \<and> (rest = [] \<or> \<not> isDigit (hd rest))
        \<and> (sg = [] \<and> ds = []
             \<longrightarrow> rest = [] \<or> (\<not> isWhiteSpace (hd rest) \<and> hd rest \<noteq> 43 \<and> hd rest \<noteq> 45))
       \<longrightarrow> (ds = [] \<or> sg = js ''-'' \<or> digitsVal ds = 0 \<longrightarrow> normalizeLimit v d = d)
           \<and> (sg \<noteq> js ''-'' \<and> 0 < digitsVal ds \<and> digitsVal ds < 2 ^ 53
                \<longrightarrow> normalizeLimit v d = min (int (digitsVal ds)) d))"
proof (intro conjI impI)
  show "normalizeLimit v d \<le> d" by (rule normalizeLimit_le)
  show "normalizeLimit Absent d = d"
    by (simp add: normalizeLimit_def limitStrOf_def parseInt_Nil)
  show "normalizeLimit (Multiple []) d = d"
    by (simp add: normalizeLimit_def limitStrOf_def parseInt_Nil)
next
  assume parts: "(v = Single (ws @ sg @ ds @ rest) \<or> v = Multiple ((ws @ sg @ ds @ rest) # others))
        \<and> list_all isWhiteSpace ws
        \<and> (sg = [] \<or> sg = js ''+'' \<or> sg = js ''-'')
        \<and> list_all isDigit ds
        \<and> (rest = [] \<or> \<not> isDigit (hd rest))
        \<and> (sg = [] \<and> ds = []
             \<longrightarrow> rest = [] \<or> (\<not> isWhiteSpace (hd rest) \<and> hd rest \<noteq> 43 \<and> hd rest \<noteq> 45))"
  then have str: "limitStrOf v = ws @ sg @ ds @ rest"
    by (auto simp: limitStrOf_def)
  have p: "parseInt (limitStrOf v) =
           (if ds = [] then NaN
            else if sg = js ''-'' then negate (toDouble (digitsVal ds) 1)
            else toDouble (digitsVal ds) 1)"
    unfolding str using parts parseInt_parts [of ws sg ds rest] by simp
  {
    assume c: "ds = [] \<or> sg = js ''-'' \<or> digitsVal ds = 0"
    show "normalizeLimit v d = d"
    proof (cases "ds = []")
      case True
      then show ?thesis using p by (simp add: normalizeLimit_def)
    next
      case False
      show ?thesis
      proof (cases "sg = js ''-''")
        case True
        then show ?thesis using p False by (simp add: normalizeLimit_negated)
      next
        case F: False
        then have "digitsVal ds = 0" using c False by simp
        then show ?thesis using p False F by (simp add: normalizeLimit_def toDouble_zero)
      qed
    qed
  }
  {
    assume c: "sg \<noteq> js ''-'' \<and> 0 < digitsVal ds \<and> digitsVal ds < 2 ^ 53"
    then have "ds \<noteq> []" by (auto simp: digitsVal_def)
    then have "parseInt (limitStrOf v) = Fin (of_nat (digitsVal ds))"
      using p c by (simp add: toDouble_exact)
    then show "normalizeLimit v d = min (int (digitsVal ds)) d"
      using c by (simp add: normalizeLimit_def)
  }
qed

text \<open>
  Instances of C1: in \<open> 42px\<close> the number 42 is read and capped at 10; of the array
  \<open>["7", "3"]\<close> the first string is read; \<open>-3\<close> and \<open>abc\<close> give the default.
\<close>

theorem normalizeLimit_capped_witness:
  "normalizeLimit (Single (js '' 42px'')) 10 = 10
   \<and> normalizeLimit (Multiple [js ''7'', js ''3'']) 10 = 7
   \<and> normalizeLimit (Single (js ''-3'')) 10 = 10
   \<and> normalizeLimit (Single (js ''abc'')) 10 = 10"
proof -
  have a: "Single (js '' 42px'') = Single (js '' '' @ [] @ js ''42'' @ js ''px'')"
    and a': "Multiple [js ''7'', js ''3''] = Multiple (([] @ [] @ js ''7'' @ []) # [js ''3''])"
    and b: "Single (js ''-3'') = Single ([] @ js ''-'' @ js ''3'' @ [])"
    and c: "Single (js ''abc'') = Single ([] @ [] @ [] @ js ''abc'')"
    by (simp_all add: js_def)
  have ws: "list_all isWhiteSpace (js '' '')" "list_all isWhiteSpace []"
    and ds: "list_all isDigit (js ''42'')" "list_all isDigit (js ''3'')" "list_all isDigit []"
      "list_all isDigit (js ''7'')"
    and r: "\<not> isDigit (hd (js ''px''))" "\<not> isDigit (hd (js ''abc''))"
      "\<not> isWhiteSpace (hd (js ''abc''))" "hd (js ''abc'') \<noteq> 43" "hd (js ''abc'') \<noteq> 45"
    and v: "digitsVal (js ''42'') = 42" "js ''42'' \<noteq> []" "js ''-'' \<noteq> []"
      "digitsVal (js ''7'') = 7" "js ''7'' \<noteq> []"
    by (simp_all add: js_def isWhiteSpace_def isDigit_def digitsVal_def)
  from a ws ds r v
    normalizeLimit_capped [of "Single (js '' 42px'')" 10 "js '' ''" "[]" "js ''42''" "js ''px''"]
  have x: "normalizeLimit (Single (js '' 42px'')) 10 = 10" by simp
  from a' ws ds r v
    normalizeLimit_capped [of "Multiple [js ''7'', js ''3'']" 10 "[]" "[]" "js ''7''" "[]"
      "[js ''3'']"]
  have x': "normalizeLimit (Multiple [js ''7'', js ''3'']) 10 = 7" by simp
  from b ws ds r v
    normalizeLimit_capped [of "Single (js ''-3'')" 10 "[]" "js ''-''" "js ''3''" "[]"]
  have y: "normalizeLimit (Single (js ''-3'')) 10 = 10" by simp
  from c ws ds r v
    normalizeLimit_capped [of "Single (js ''abc'')" 10 "[]" "[]" "[]" "js ''abc''"]
  have z: "normalizeLimit (Single (js ''abc'')) 10 = 10" by simp
  from x x' y z show ?thesis by simp
qed

lemma Number_5abc: "Number (js ''5abc'') = NaN"
  by (simp add: Number_def js_def trim_def isWhiteSpace_def nonDecimalLiteral_def
      unsignedDecimalLiteral_def isDigit_def exponentPart_def)

lemma parseInt_5abc: "parseInt (js ''5abc'') = Fin 5"
proof -
  have "parseInt ([] @ [] @ js ''5'' @ js ''abc'') = toDouble (digitsVal (js ''5'')) 1"
    by (subst parseInt_parts) (simp_all add: js_def isDigit_def)
  moreover have "digitsVal (js ''5'') = 5" by (simp add: js_def digitsVal_def)
  moreover have "toDouble 5 1 = Fin (of_nat 5)" by (rule toDouble_exact_1) simp_all
  ultimately show ?thesis by (simp add: js_def)
qed

text \<open>
  C1 as the specification words it, the default for every limit that does not parse as
  a number, fails at \<open>5abc\<close>: the text is no number (\<open>Number\<close> of it is \<open>NaN\<close>), and
  \<open>normalizeLimit\<close> reads the leading 5 and returns 5, not the default 10.
\<close>

theorem normalizeLimit_reads_prefix:
  "Number (js ''5abc'') = NaN \<and> normalizeLimit (Single (js ''5abc'')) 10 = 5"
  by (simp add: Number_5abc normalizeLimit_def limitStrOf_def parseInt_5abc)

subsection \<open>\<open>Number\<close> on strings of decimal digits\<close>

lemma digits_trim:
  assumes "s \<noteq> []" "list_all isDigit s"
  shows "trim s = s"
proof -
  have "isDigit (hd s)" "isDigit (last s)"
    using assms by (auto simp: list_all_iff)
  then show ?thesis using assms(1) by (intro trim_fixed) (auto dest: digit_not_ws)
qed

lemma digits_nonDecimal:
  assumes "list_all isDigit s"
  shows "nonDecimalLiteral s = None"
proof (cases "length s < 3")
  case True
  then show ?thesis by (simp add: nonDecimalLiteral_def)
next
  case False
  then obtain a b cs where s: "s = a # b # cs" by (cases s; cases "tl s") auto
  with assms have "isDigit b" by simp
  then have "[b] \<noteq> js ''x''" "[b] \<noteq> js ''X''" "[b] \<noteq> js ''o''" "[b] \<noteq> js ''O''"
    "[b] \<noteq> js ''b''" "[b] \<noteq> js ''B''"
    by (auto simp: js_def isDigit_def)
  then show ?thesis by (simp add: nonDecimalLiteral_def s)
qed

lemma digits_unsigned:
  assumes "s \<noteq> []" "list_all isDigit s"
  shows "unsignedDecimalLiteral s = toDouble (digitsVal s) 1"
proof -
  have "isDigit (hd s)" using assms by (cases s) auto
  then have "hd s \<noteq> 73" by (simp add: isDigit_def)
  then have "s \<noteq> js ''Infinity''" by (auto simp: js_def)
  then show ?thesis
    using assms
    by (simp add: unsignedDecimalLiteral_def takeWhile_all dropWhile_all exponentPart_def
        decimalValue_def Let_def)
qed

lemma Number_digits:
  assumes "s \<noteq> []" "list_all isDigit s"
  shows "Number s = toDouble (digitsVal s) 1"
proof -
  have "isDigit (hd s)" using assms by (cases s) auto
  then have "hd s \<noteq> 45" "hd s \<noteq> 43" by (simp_all add: isDigit_def)
  then have "take 1 s \<noteq> js ''-''" "take 1 s \<noteq> js ''+''"
    using assms(1) by (cases s; auto simp: js_def)+
  then show ?thesis
    using assms by (simp add: Number_def digits_trim digits_nonDecimal digits_unsigned)
qed

lemma Number_empty: "Number [] = Fin 0"
  by (simp add: Number_def trim_def)

lemma Number_2: "Number (js ''2'') = Fin 2"
proof -
  have "Number (js ''2'') = toDouble (digitsVal (js ''2'')) 1"
    by (rule Number_digits) (simp_all add: js_def isDigit_def)
  moreover have "digitsVal (js ''2'') = 2" by (simp add: js_def digitsVal_def)
  moreover have "toDouble 2 1 = Fin (of_nat 2)" by (rule toDouble_exact_1) simp_all
  ultimately show ?thesis by simp
qed

text \<open>Three literals with a fraction or an exponent, and the binary64 values they round to.\<close>

lemma Number_1_5: "Number (js ''1.5'') = Fin (3 / 2)"
proof -
  have "Number (js ''1.5'') = toDouble 15 10"
    by (simp add: Number_def js_def trim_def isWhiteSpace_def nonDecimalLiteral_def
        unsignedDecimalLiteral_def isDigit_def exponentPart_def decimalValue_def digitsVal_def)
  also have "\<dots> = Fin (3 / 2)" by (simp add: double_eval)
  finally show ?thesis .
qed

lemma Number_4_0000000000000001: "Number (js ''4.0000000000000001'') = Fin 4"
proof -
  have "Number (js ''4.0000000000000001'') = toDouble 40000000000000001 (10 ^ 16)"
    by (simp add: Number_def js_def trim_def isWhiteSpace_def nonDecimalLiteral_def
        unsignedDecimalLiteral_def isDigit_def exponentPart_def decimalValue_def digitsVal_def)
  also have "\<dots> = Fin 4" by (simp add: double_eval)
  finally show ?thesis .
qed

lemma Number_1e309: "Number (js ''1e309'') = PosInfinity"
proof -
  have "Number (js ''1e309'') = toDouble (10 ^ 309) 1"
    by (simp add: Number_def js_def trim_def isWhiteSpace_def nonDecimalLiteral_def
        unsignedDecimalLiteral_def isDigit_def exponentPart_def decimalValue_def digitsVal_def
        list_all_iff)
  also have "\<dots> = PosInfinity" by (simp add: double_eval)
  finally show ?thesis .
qed

text \<open>The default 1 of the normalizers makes the result of \<open>parsePositiveInt\<close> a number.\<close>

lemma parsePositiveInt_default: "parsePositiveInt value (Some d) \<noteq> Inr None"
  by (auto simp: parsePositiveInt_def split: option.splits jsnum.splits)

text \<open>
  C9, as the code has it. For a string that is not empty: when \<open>Number\<close> of it is an
  integer above 0, \<open>parsePositiveInt\<close> returns that integer, and a string of decimal
  digits with a value above 0 and below \<open>2^53\<close> (where binary64 is exact) is such a
  string, returned as its value; when \<open>Number\<close> of it is not an integer or is at most 0
  (no number, a fraction, zero, a negative value), \<open>parsePositiveInt\<close> throws the
  \<open>BadRequestError\<close> that quotes the string.
\<close>

theorem parsePositiveInt_spec:
  assumes "s \<noteq> []"
  shows "(list_all isDigit s \<and> 0 < digitsVal s \<and> digitsVal s < 2 ^ 53
            \<longrightarrow> parsePositiveInt (Some s) d = Inr (Some (int (digitsVal s)))
                \<and> Number s = Fin (of_nat (digitsVal s)))
       \<and> (isInteger (Number s) \<and> \<not> leZero (Number s)
            \<longrightarrow> (\<exists>n. 0 < n \<and> Number s = Fin (of_int n) \<and> parsePositiveInt (Some s) d = Inr (Some n)))
       \<and> (\<not> isInteger (Number s) \<or> leZero (Number s)
            \<longrightarrow> parsePositiveInt (Some s) d = Inl (BadRequestError (MustBePositiveInt s)))"
proof (intro conjI impI)
  assume a: "list_all isDigit s \<and> 0 < digitsVal s \<and> digitsVal s < 2 ^ 53"
  then have n: "Number s = Fin (of_nat (digitsVal s))"
    using assms by (simp add: Number_digits toDouble_exact)
  then show "parsePositiveInt (Some s) d = Inr (Some (int (digitsVal s)))"
    using assms a by (simp add: parsePositiveInt_def)
  show "Number s = Fin (of_nat (digitsVal s))" by (rule n)
next
  assume a: "isInteger (Number s) \<and> \<not> leZero (Number s)"
  then obtain q where q: "Number s = Fin q" by (cases "Number s") auto
  with a have i: "of_int \<lfloor>q\<rfloor> = q" and p: "0 < q" by auto
  then have "0 < \<lfloor>q\<rfloor>" by linarith
  moreover have "parsePositiveInt (Some s) d = Inr (Some \<lfloor>q\<rfloor>)"
    using assms q i p by (simp add: parsePositiveInt_def)
  ultimately show "\<exists>n. 0 < n \<and> Number s = Fin (of_int n) \<and> parsePositiveInt (Some s) d = Inr (Some n)"
    using q i by auto
next
  assume a: "\<not> isInteger (Number s) \<or> leZero (Number s)"
  then show "parsePositiveInt (Some s) d = Inl (BadRequestError (MustBePositiveInt s))"
    using assms by (cases "Number s") (auto simp: parsePositiveInt_def)
qed

text \<open>
  Instances of C9: \<open>42\<close> is returned as 42; \<open>4.0000000000000001\<close>, which binary64 rounds
  to 4, is returned as 4; \<open>1.5\<close> and \<open>1e309\<close>, which binary64 rounds to \<open>Infinity\<close>, are
  rejected with their text.
\<close>

theorem parsePositiveInt_spec_witness:
  "js ''42'' \<noteq> [] \<and> parsePositiveInt (Some (js ''42'')) None = Inr (Some 42)
   \<and> js ''4.0000000000000001'' \<noteq> []
   \<and> parsePositiveInt (Some (js ''4.0000000000000001'')) None = Inr (Some 4)
   \<and> js ''1.5'' \<noteq> []
   \<and> parsePositiveInt (Some (js ''1.5'')) None = Inl (BadRequestError (MustBePositiveInt (js ''1.5'')))
   \<and> js ''1e309'' \<noteq> []
   \<and> parsePositiveInt (Some (js ''1e309'')) None
       = Inl (BadRequestError (MustBePositiveInt (js ''1e309'')))"
proof -
  have a: "js ''42'' \<noteq> []" and b: "js ''1.5'' \<noteq> []"
    and a': "js ''4.0000000000000001'' \<noteq> []" and b': "js ''1e309'' \<noteq> []"
    by (simp_all add: js_def)
  have c: "list_all isDigit (js ''42'') \<and> 0 < digitsVal (js ''42'')
        \<and> digitsVal (js ''42'') < 2 ^ 53"
    and d: "int (digitsVal (js ''42'')) = 42"
    by (simp_all add: js_def isDigit_def digitsVal_def)
  have "\<lfloor>3 / 2 :: rat\<rfloor> = 1"
    by (simp add: floor_eq_iff)
  then have e: "\<not> isInteger (Number (js ''1.5''))"
    by (simp add: Number_1_5)
  have f: "\<not> isInteger (Number (js ''1e309''))"
    by (simp add: Number_1e309)
  have g: "isInteger (Number (js ''4.0000000000000001''))
           \<and> \<not> leZero (Number (js ''4.0000000000000001''))"
    by (simp add: Number_4_0000000000000001)
  from g parsePositiveInt_spec [OF a', of None]
  have h: "parsePositiveInt (Some (js ''4.0000000000000001'')) None = Inr (Some 4)"
    by (auto simp: Number_4_0000000000000001)
  from a b a' b' c d e f h
    parsePositiveInt_spec [OF a, of None] parsePositiveInt_spec [OF b, of None]
    parsePositiveInt_spec [OF b', of None]
  show ?thesis by simp
qed

text \<open>
  C9 as the specification words it, failure on every string that stands for a value
  that is not positive or is no integer, fails at the empty string: \<open>Number\<close> of it is 0,
  and \<open>parsePositiveInt\<close> returns the default, a number or \<open>undefined\<close>, without an error.
\<close>

theorem parsePositiveInt_empty_returns_default:
  "Number [] = Fin 0 \<and> leZero (Number [])
   \<and> parsePositiveInt (Some []) (Some 1) = Inr (Some 1)
   \<and> parsePositiveInt (Some []) None = Inr None"
  by (simp add: Number_empty parsePositiveInt_def)

lemma parsePositiveInt_2: "parsePositiveInt (Some (js ''2'')) (Some 1) = Inr (Some 2)"
proof -
  have "js ''2'' \<noteq> []" by (simp add: js_def)
  then show ?thesis by (simp add: parsePositiveInt_def Number_2)
qed

lemma normalizeLimit_999: "normalizeLimit (Single (js ''999'')) 10 = 10"
proof -
  have "parseInt (js ''999'') = toDouble (digitsVal (js ''999'')) 1"
    by (rule parseInt_digits) (simp_all add: js_def isDigit_def)
  moreover have "digitsVal (js ''999'') = 999" by (simp add: js_def digitsVal_def)
  moreover have "toDouble 999 1 = Fin (of_nat 999)" by (rule toDouble_exact_1) simp_all
  ultimately show ?thesis by (simp add: normalizeLimit_def limitStrOf_def)
qed

text \<open>
  C8. For the query \<open>{page: "2", limit: "999"}\<close> and the default limit 10,
  \<open>normalizeOrderQueryParams\<close> returns page 2, limit 10 (the requested 999 capped at the
  default), sort field \<open>createdAt\<close>, sort order \<open>desc\<close> and every optional field absent,
  whatever the date parser of the host.
\<close>

theorem normalizeOrderQueryParams_scenario:
  "normalizeOrderQueryParams dateCtor
     ((\<lambda>k. Absent)(''page'' := Single (js ''2''), ''limit'' := Single (js ''999''))) 10
   = Inr \<lparr> page = 2, limit = 10, sortField = js ''createdAt'', sortOrder = Desc,
           status = None, totalAmountFrom = None, totalAmountTo = None,
           orderDateFrom = None, orderDateTo = None, search = None \<rparr>"
  by (simp add: normalizeOrderQueryParams_def andThen_def parsePositiveInt_2 normalizeLimit_999
      parseSortOrder_def parseNonNegativeNumber_def parseDate_def sanitizeSearch_def)

section \<open>Properties of the filter builders\<close>

lemma andThen_Inr: "andThen m f = Inr r \<longleftrightarrow> (\<exists>x. m = Inr x \<and> f x = Inr r)"
  by (cases m) (auto simp: andThen_def)

subsection \<open>Upper bounds of date ranges\<close>

text \<open>
  The customer builder moves the upper bound of a date range to the end of its local
  day: whenever \<open>setHours\<close> yields a valid date, the \<open>$lte\<close> value is 23:59:59.999 of the
  day, 86399999 milliseconds into it.
\<close>

lemma setHours_timeOfDay:
  assumes "setHours_23_59_59_999 tz d = TimeValue u"
  shows "localTimeOfDay tz (TimeValue u) = Some 86399999"
proof -
  from assms obtain t where "d = TimeValue t"
    and u: "u = ((t + tz) div msPerDay) * msPerDay + 86399999 - tz"
    by (cases d) (auto simp: setHours_23_59_59_999_def Let_def split: if_splits)
  have "(u + tz) mod msPerDay = 86399999"
    unfolding u by (simp add: msPerDay_def)
  then show ?thesis by simp
qed

lemma getCustomers_end_of_day:
  assumes "getCustomers_build tz esc findOrders p = Inr q"
    and "c_registrationDateTo p = Some d" and "setHours_23_59_59_999 tz d = TimeValue u"
  shows "\<exists>r. cf_createdAt (cq_filters q) = Some r \<and> lte r = Some (TimeValue u)
           \<and> localTimeOfDay tz (TimeValue u) = Some 86399999"
  using assms setHours_timeOfDay [OF assms(3)]
  by (auto simp: getCustomers_build_def customerQueryOf_def endOfDayRange_def
      split: option.splits if_splits)

text \<open>
  The order builder takes the upper bound as the normalizer parsed it, for every request
  that it accepts.
\<close>

lemma getOrders_upper_bound_unchanged:
  assumes "getOrders_build escapeRegExp p = Inr q" and "orderDateTo p = Some d"
  shows "f_createdAt (o_filters q) = Some \<lparr> gte = orderDateFrom p, lte = Some d \<rparr>"
  using assms by (auto simp: getOrders_build_def plainRange_def split: if_splits)

lemma normalizeOrder_orderDateTo:
  "normalizeOrderQueryParams (\<lambda>s. if s = js ''2024-01-15'' then TimeValue 1705276800000 else InvalidDate)
     ((\<lambda>k. Absent)(''orderDateTo'' := Single (js ''2024-01-15''))) 10
   = Inr \<lparr> page = 1, limit = 10, sortField = js ''createdAt'', sortOrder = Desc,
           status = None, totalAmountFrom = None, totalAmountTo = None,
           orderDateFrom = None, orderDateTo = Some (TimeValue 1705276800000), search = None \<rparr>"
  by (simp add: normalizeOrderQueryParams_def andThen_def parsePositiveInt_def
      normalizeLimit_def limitStrOf_def parseInt_def js_def
      parseSortOrder_def parseNonNegativeNumber_def parseDate_def sanitizeSearch_def)

text \<open>
  C3 at the orders endpoint. The request \<open>GET /orders?orderDateTo=2024-01-15\<close>, on a host
  whose \<open>Date\<close> reads the text as midnight UTC of that day (time value 1705276800000)
  and whose local time is UTC: \<open>getOrders\<close> hands the parsed date to the filter as it is,
  so the \<open>$lte\<close> value is 00:00:00.000 of the day and not 23:59:59.999.
\<close>

theorem getOrders_orderDateTo_not_end_of_day:
  "\<exists>q. getOrders (\<lambda>s. if s = js ''2024-01-15'' then TimeValue 1705276800000 else InvalidDate)
           escapeRegExp ((\<lambda>k. Absent)(''orderDateTo'' := Single (js ''2024-01-15''))) = Inr q
      \<and> f_createdAt (o_filters q) = Some \<lparr> gte = None, lte = Some (TimeValue 1705276800000) \<rparr>
      \<and> localTimeOfDay 0 (TimeValue 1705276800000) = Some 0"
  by (simp add: getOrders_def normalizeOrder_orderDateTo andThen_def getOrders_build_def
      plainRange_def msPerDay_def)

subsection \<open>Sort fields\<close>

text \<open>
  The customer builder sorts by a field of its allow-list, whatever the request names.
\<close>

lemma allowedSortFields_not_proto: "f \<in> set allowedSortFields \<Longrightarrow> f \<noteq> js ''__proto__''"
  by (auto simp: allowedSortFields_def js_def)

lemma getCustomers_sort_allowed:
  assumes "getCustomers_build tz esc findOrders p = Inr q"
  shows "\<exists>f dir. cq_sort q = [(f, dir)] \<and> f \<in> set allowedSortFields"
proof -
  define f where "f = (if c_sortField p \<in> set allowedSortFields then c_sortField p
                       else js ''createdAt'')"
  have "js ''createdAt'' \<in> set allowedSortFields" by (simp add: allowedSortFields_def)
  then have in_list: "f \<in> set allowedSortFields" by (simp add: f_def)
  then have "f \<noteq> js ''__proto__''" by (rule allowedSortFields_not_proto)
  then have "sortSpec f (if c_sortOrder p = Desc then - 1 else 1)
               = [(f, if c_sortOrder p = Desc then - 1 else 1)]"
    by (simp add: sortSpec_def)
  moreover have "cq_sort q = sortSpec f (if c_sortOrder p = Desc then - 1 else 1)"
    using assms
    by (auto simp: getCustomers_build_def customerQueryOf_def f_def
        split: option.splits if_splits)
  ultimately show ?thesis using in_list by auto
qed

text \<open>
  The order builder sorts by the field the request names, whatever it is; only the empty
  name and the name \<open>__proto__\<close> leave the sort specification empty.
\<close>

lemma getOrders_sort_unchecked:
  assumes "getOrders_build escapeRegExp p = Inr q"
    and "sortField p \<noteq> []" and "sortField p \<noteq> js ''__proto__''"
  shows "o_sort q = [(sortField p, if sortOrder p = Desc then - 1 else 1)]"
  using assms by (auto simp: getOrders_build_def sortSpec_def split: if_splits)

lemma getOrders_sort_empty:
  assumes "getOrders_build escapeRegExp p = Inr q"
    and "sortField p = [] \<or> sortField p = js ''__proto__''"
  shows "o_sort q = []"
  using assms by (auto simp: getOrders_build_def sortSpec_def split: if_splits)

lemma normalizeOrder_sortField:
  "normalizeOrderQueryParams dateCtor ((\<lambda>k. Absent)(''sortField'' := Single (js ''password''))) 10
   = Inr \<lparr> page = 1, limit = 10, sortField = js ''password'', sortOrder = Desc,
           status = None, totalAmountFrom = None, totalAmountTo = None,
           orderDateFrom = None, orderDateTo = None, search = None \<rparr>"
  by (simp add: normalizeOrderQueryParams_def andThen_def parsePositiveInt_def
      normalizeLimit_def limitStrOf_def parseInt_def
      parseSortOrder_def parseNonNegativeNumber_def parseDate_def sanitizeSearch_def)

text \<open>
  C4 at the orders endpoint. The request \<open>GET /orders?sortField=password\<close>: \<open>getOrders\<close>
  has no allow-list of sort fields, and the sort specification it hands to the storage
  layer is \<open>{password: -1}\<close>, a field that the allow-list of the customer builder does
  not hold either.
\<close>

theorem getOrders_sortField_not_validated:
  "\<exists>q. getOrders dateCtor escapeRegExp ((\<lambda>k. Absent)(''sortField'' := Single (js ''password''))) = Inr q
      \<and> o_sort q = [(js ''password'', - 1)]
      \<and> js ''password'' \<notin> set allowedSortFields"
proof -
  have "js ''password'' \<notin> set allowedSortFields"
    by (simp add: allowedSortFields_def js_def)
  moreover have "js ''password'' \<noteq> []" "js ''password'' \<noteq> js ''__proto__''"
    by (simp_all add: js_def)
  ultimately show ?thesis
    by (simp add: getOrders_def normalizeOrder_sortField andThen_def getOrders_build_def
        sortSpec_def)
qed

subsection \<open>The search term of the customer list\<close>

lemma normalizeCustomer_search:
  assumes "normalizeCustomerQueryParams dateCtor query defaultLimit = Inr p"
  shows "\<exists>s. getSingleString (query ''search'') = Inr s \<and> sanitizeSearch s = Inr (c_search p)"
  using assms unfolding normalizeCustomerQueryParams_def andThen_Inr by auto

lemma sanitizeSearch_absent:
  "sanitizeSearch None = Inr None" "trim s = [] \<Longrightarrow> sanitizeSearch (Some s) = Inr None"
  by (simp_all add: sanitizeSearch_def)

lemma normalizeCustomer_empty:
  "normalizeCustomerQueryParams dateCtor (\<lambda>k. Absent) 10
   = Inr \<lparr> c_page = 1, c_limit = 10, c_sortField = js ''createdAt'', c_sortOrder = Desc,
           c_registrationDateFrom = None, c_registrationDateTo = None,
           c_lastOrderDateFrom = None, c_lastOrderDateTo = None,
           c_totalAmountFrom = None, c_totalAmountTo = None,
           c_orderCountFrom = None, c_orderCountTo = None, c_search = None \<rparr>"
  by (simp add: normalizeCustomerQueryParams_def andThen_def parsePositiveInt_def
      normalizeLimit_def limitStrOf_def parseInt_def
      parseSortOrder_def parseNonNegativeNumber_def parseDate_def sanitizeSearch_def)

text \<open>
  C10. When the normalization of a customer list request succeeds with no search term
  (no \<open>search\<close> parameter, or one that trims to the empty string), \<open>getCustomers\<close> of
  controllers/customers.ts ends in the \<open>NotFoundError\<close> of an invalid search parameter,
  and the near-duplicate \<open>getCustomers\<close> builds the listing of the other filters with no
  \<open>$or\<close> condition.
\<close>

theorem getCustomers_search_mandatory:
  assumes "normalizeCustomerQueryParams dateCtor query 10 = Inr p"
    and "c_search p = None \<or> query ''search'' = Absent
         \<or> (\<exists>s. query ''search'' = Single s \<and> trim s = [])"
  shows "c_search p = None
       \<and> getCustomers tz dateCtor esc findOrders query = Inl (NotFoundError InvalidSearchParameter)
       \<and> getCustomers_alt tz dateCtor findOrders query = Inr (customerQueryOf tz p None)
       \<and> cf_or (cq_filters (customerQueryOf tz p None)) = None"
proof -
  from normalizeCustomer_search [OF assms(1)] obtain v
    where v: "getSingleString (query ''search'') = Inr v" "sanitizeSearch v = Inr (c_search p)"
    by blast
  have none: "c_search p = None"
    using assms(2)
  proof (elim disjE exE conjE)
    assume "c_search p = None"
    then show ?thesis .
  next
    assume "query ''search'' = Absent"
    with v show ?thesis by (simp add: sanitizeSearch_absent)
  next
    fix s
    assume "query ''search'' = Single s" "trim s = []"
    with v show ?thesis by (auto simp: sanitizeSearch_absent)
  qed
  with assms(1) show ?thesis
    by (simp add: getCustomers_def getCustomers_alt_def andThen_def getCustomers_build_def
        getCustomers_alt_build_def customerQueryOf_def)
qed

text \<open>An instance of C10: the request with no parameter at all.\<close>

theorem getCustomers_search_mandatory_witness:
  "getCustomers 0 (\<lambda>s. InvalidDate) escapeRegex (\<lambda>r. []) (\<lambda>k. Absent)
     = Inl (NotFoundError InvalidSearchParameter)
   \<and> (\<exists>q. getCustomers_alt 0 (\<lambda>s. InvalidDate) (\<lambda>r. []) (\<lambda>k. Absent) = Inr q
          \<and> cf_or (cq_filters q) = None)"
  using getCustomers_search_mandatory
      [where tz = 0 and esc = escapeRegex and findOrders = "\<lambda>r. []", OF normalizeCustomer_empty]
  by simp

end
